theory Spec2Isabelle
  imports
    Complex_Main
    "HOL-Library.Monad_Syntax"
    "HOL-Library.AList"
    "HOL-Library.Sublist"
    "HOL-Library.Char_ord"
    "HOL-Library.List_Lexorder"
begin

section \<open>JavaScript numbers\<close>

text \<open>
  \<^verbatim>\<open>StarCatalogService.ts\<close> computes with the JavaScript type \<^verbatim>\<open>number\<close>, the
  binary64 format of IEEE 754. A finite double is the real number it denotes; every
  arithmetic operation returns the exact result rounded to the nearest double, a tie going
  to the double whose significand is even.

  \<open>round64\<close> is that rounding. For \<open>x \<noteq> 0\<close>, \<open>expo x\<close> is the exponent
  of the binade of \<open>x\<close>, not below -1022 (below it the doubles are subnormal and keep the
  spacing \<open>2 powi (- 1074)\<close>); the doubles of that binade are the integer multiples of
  \<open>2 powi (expo x - 52)\<close>, and \<open>x\<close> is rounded to the nearest of them by
  \<open>rhe\<close>, which rounds a real to the nearest integer, a half to the even one.
\<close>

definition rhe :: "real \<Rightarrow> int" where
  "rhe x =
     (let n = \<lfloor>x\<rfloor>; r = x - of_int n
      in if r < 1 / 2 then n else if 1 / 2 < r then n + 1 else if even n then n else n + 1)"

definition expo :: "real \<Rightarrow> int" where
  "expo x = max \<lfloor>log 2 \<bar>x\<bar>\<rfloor> (- 1022)"

definition round64 :: "real \<Rightarrow> real" where
  "round64 x =
     (if x = 0 then 0
      else of_int (rhe (x / 2 powi (expo x - 52))) * 2 powi (expo x - 52))"

text \<open>
  A \<^verbatim>\<open>number\<close> is a finite double or one of \<^verbatim>\<open>Infinity\<close>, \<^verbatim>\<open>-Infinity\<close> and
  \<^verbatim>\<open>NaN\<close>. \<open>num x\<close> is the \<^verbatim>\<open>number\<close> that the exact value \<open>x\<close> is
  rounded to: a rounded value of magnitude \<open>2 ^ 1024\<close> or more overflows to an infinity.
  It is also the value of a decimal literal \<open>x\<close> of the source. The two zeros of the
  format are not told apart: \<open>Fin 0\<close> stands for both, and a division by it has
  the sign of the dividend, as a division by \<^verbatim>\<open>+0\<close> has.
\<close>

datatype jsnum = Fin real | PInf | NInf | NaN

definition num :: "real \<Rightarrow> jsnum" where
  "num x =
     (let r = round64 x
      in if 2 ^ 1024 \<le> r then PInf else if r \<le> - (2 ^ 1024) then NInf else Fin r)"

instantiation jsnum :: "{zero, one, plus, uminus, minus, times, inverse, abs, ord}"
begin

definition zero_jsnum :: jsnum where
  "zero_jsnum = Fin 0"

definition one_jsnum :: jsnum where
  "one_jsnum = Fin 1"

fun plus_jsnum :: "jsnum \<Rightarrow> jsnum \<Rightarrow> jsnum" where
  "Fin a + Fin b = num (a + b)"
| "NaN + _ = NaN"
| "_ + NaN = NaN"
| "PInf + NInf = NaN"
| "NInf + PInf = NaN"
| "PInf + _ = PInf"
| "_ + PInf = PInf"
| "NInf + _ = NInf"
| "_ + NInf = NInf"

fun uminus_jsnum :: "jsnum \<Rightarrow> jsnum" where
  "- Fin a = Fin (- a)"
| "- PInf = NInf"
| "- NInf = PInf"
| "- NaN = NaN"

definition minus_jsnum :: "jsnum \<Rightarrow> jsnum \<Rightarrow> jsnum" where
  "minus_jsnum a b = a + (- b)"

fun times_jsnum :: "jsnum \<Rightarrow> jsnum \<Rightarrow> jsnum" where
  "Fin a * Fin b = num (a * b)"
| "NaN * _ = NaN"
| "_ * NaN = NaN"
| "PInf * Fin b = (if b = 0 then NaN else if 0 < b then PInf else NInf)"
| "NInf * Fin b = (if b = 0 then NaN else if 0 < b then NInf else PInf)"
| "Fin a * PInf = (if a = 0 then NaN else if 0 < a then PInf else NInf)"
| "Fin a * NInf = (if a = 0 then NaN else if 0 < a then NInf else PInf)"
| "PInf * PInf = PInf"
| "NInf * NInf = PInf"
| "PInf * NInf = NInf"
| "NInf * PInf = NInf"

fun divide_jsnum :: "jsnum \<Rightarrow> jsnum \<Rightarrow> jsnum" where
  "divide_jsnum (Fin a) (Fin b) =
     (if b = 0 then (if a = 0 then NaN else if 0 < a then PInf else NInf)
      else num (a / b))"
| "divide_jsnum NaN _ = NaN"
| "divide_jsnum _ NaN = NaN"
| "divide_jsnum (Fin a) PInf = Fin 0"
| "divide_jsnum (Fin a) NInf = Fin 0"
| "divide_jsnum PInf (Fin b) = (if 0 \<le> b then PInf else NInf)"
| "divide_jsnum NInf (Fin b) = (if 0 \<le> b then NInf else PInf)"
| "divide_jsnum _ _ = NaN"

definition inverse_jsnum :: "jsnum \<Rightarrow> jsnum" where
  "inverse_jsnum a = divide (Fin 1) a"

fun abs_jsnum :: "jsnum \<Rightarrow> jsnum" where
  "\<bar>Fin a\<bar> = Fin \<bar>a\<bar>"
| "\<bar>PInf\<bar> = PInf"
| "\<bar>NInf\<bar> = PInf"
| "\<bar>NaN\<bar> = NaN"

fun less_jsnum :: "jsnum \<Rightarrow> jsnum \<Rightarrow> bool" where
  "Fin a < Fin b = (a < b)"
| "NaN < _ = False"
| "_ < NaN = False"
| "NInf < NInf = False"
| "NInf < _ = True"
| "PInf < _ = False"
| "Fin a < PInf = True"
| "Fin a < NInf = False"

definition less_eq_jsnum :: "jsnum \<Rightarrow> jsnum \<Rightarrow> bool" where
  "less_eq_jsnum a b = (a < b \<or> (a = b \<and> a \<noteq> NaN))"

instance ..

end

text \<open>
  \<^verbatim>\<open>Math.PI\<close> is the double nearest to \<open>\<pi>\<close>, 884279719003555 / 2 ^ 48.

  ECMAScript leaves the precision of \<^verbatim>\<open>Math.sin\<close>, \<^verbatim>\<open>cos\<close>, \<^verbatim>\<open>tan\<close>,
  \<^verbatim>\<open>asin\<close>, \<^verbatim>\<open>acos\<close> and \<^verbatim>\<open>atan2\<close> to the implementation. They are modelled as
  correctly rounded: the result is the double nearest to the exact value at the double
  that is the argument. \<^verbatim>\<open>Math.sqrt\<close> is correctly rounded by the standard, and
  \<^verbatim>\<open>Math.floor\<close> and \<^verbatim>\<open>Math.abs\<close> are exact.
\<close>

definition Math_PI :: jsnum where
  "Math_PI = Fin (884279719003555 / 281474976710656)"

fun Math_sin :: "jsnum \<Rightarrow> jsnum" where
  "Math_sin (Fin x) = Fin (round64 (sin x))"
| "Math_sin _ = NaN"

fun Math_cos :: "jsnum \<Rightarrow> jsnum" where
  "Math_cos (Fin x) = Fin (round64 (cos x))"
| "Math_cos _ = NaN"

fun Math_tan :: "jsnum \<Rightarrow> jsnum" where
  "Math_tan (Fin x) = num (tan x)"
| "Math_tan _ = NaN"

fun Math_asin :: "jsnum \<Rightarrow> jsnum" where
  "Math_asin (Fin x) = (if - 1 \<le> x \<and> x \<le> 1 then Fin (round64 (arcsin x)) else NaN)"
| "Math_asin _ = NaN"

fun Math_acos :: "jsnum \<Rightarrow> jsnum" where
  "Math_acos (Fin x) = (if - 1 \<le> x \<and> x \<le> 1 then Fin (round64 (arccos x)) else NaN)"
| "Math_acos _ = NaN"

fun Math_sqrt :: "jsnum \<Rightarrow> jsnum" where
  "Math_sqrt (Fin x) = (if x < 0 then NaN else Fin (round64 (sqrt x)))"
| "Math_sqrt PInf = PInf"
| "Math_sqrt _ = NaN"

fun Math_atan2 :: "jsnum \<Rightarrow> jsnum \<Rightarrow> jsnum" where
  "Math_atan2 (Fin y) (Fin x) =
     Fin (round64
       (if 0 < x then arctan (y / x)
        else if x < 0 then (if 0 \<le> y then arctan (y / x) + pi else arctan (y / x) - pi)
        else if 0 < y then pi / 2
        else if y < 0 then - pi / 2
        else 0))"
| "Math_atan2 NaN _ = NaN"
| "Math_atan2 _ NaN = NaN"
| "Math_atan2 (Fin y) PInf = Fin 0"
| "Math_atan2 (Fin y) NInf = Fin (round64 (if 0 \<le> y then pi else - pi))"
| "Math_atan2 PInf (Fin x) = Fin (round64 (pi / 2))"
| "Math_atan2 NInf (Fin x) = Fin (round64 (- pi / 2))"
| "Math_atan2 PInf PInf = Fin (round64 (pi / 4))"
| "Math_atan2 PInf NInf = Fin (round64 (3 * pi / 4))"
| "Math_atan2 NInf PInf = Fin (round64 (- pi / 4))"
| "Math_atan2 NInf NInf = Fin (round64 (- 3 * pi / 4))"

fun Math_floor :: "jsnum \<Rightarrow> jsnum" where
  "Math_floor (Fin x) = Fin (of_int \<lfloor>x\<rfloor>)"
| "Math_floor x = x"

definition Math_abs :: "jsnum \<Rightarrow> jsnum" where
  "Math_abs x = \<bar>x\<bar>"

text \<open>\<^verbatim>\<open>Math.min\<close> and \<^verbatim>\<open>Math.max\<close> return \<^verbatim>\<open>NaN\<close> as soon as one
  argument is \<^verbatim>\<open>NaN\<close>.\<close>

definition Math_min :: "jsnum \<Rightarrow> jsnum \<Rightarrow> jsnum" where
  "Math_min a b = (if a = NaN \<or> b = NaN then NaN else if b < a then b else a)"

definition Math_max :: "jsnum \<Rightarrow> jsnum \<Rightarrow> jsnum" where
  "Math_max a b = (if a = NaN \<or> b = NaN then NaN else if a < b then b else a)"

section \<open>Angle normalization\<close>

text \<open>
  \<^verbatim>\<open>
  private normalizeAngle(angle: number): number {
    while (angle < 0) angle += 360;
    while (angle >= 360) angle -= 360;
    return angle;
  }\<close>
  Each loop is a function of its own. A loop need not end (on \<^verbatim>\<open>Infinity\<close>, and on a
  finite double so large that adding 360 to it returns it), so both are partial:
  \<open>None\<close> stands for a call that does not return.
\<close>

partial_function (option) normalizeAngle_up :: "jsnum \<Rightarrow> jsnum option" where
  "normalizeAngle_up angle =
     (if angle < Fin 0 then normalizeAngle_up (angle + Fin 360) else Some angle)"

partial_function (option) normalizeAngle_down :: "jsnum \<Rightarrow> jsnum option" where
  "normalizeAngle_down angle =
     (if Fin 360 \<le> angle then normalizeAngle_down (angle - Fin 360) else Some angle)"

definition normalizeAngle :: "jsnum \<Rightarrow> jsnum option" where
  "normalizeAngle angle = do {
     angle1 \<leftarrow> normalizeAngle_up angle;
     normalizeAngle_down angle1
   }"
section \<open>Data model\<close>

text \<open>
  The interfaces of \<^verbatim>\<open>StarCatalogService.ts\<close>. The numbers of the catalogue and of an
  observer's location are finite: such a field is a real, the number as the source writes
  it, and \<^const>\<open>num\<close> rounds it to its double where it enters a computation. The
  numbers the service computes are \<^typ>\<open>jsnum\<close>. A field whose name is a constant of
  HOL, or the name of a field of another interface, carries the interface's name as a
  prefix.
\<close>

record Star =
  star_id :: string
  star_name :: string
  commonName :: "string option"
  star_ra :: real
  star_dec :: real
  magnitude :: real
  spectralClass :: "string option"
  constellation :: "string option"

record ConstellationLine =
  line_from :: string
  line_to :: string

record Constellation =
  constellation_id :: string
  constellation_name :: string
  constellation_abbreviation :: string
  constellation_stars :: "string list"
  lines :: "ConstellationLine list"
  mythology :: "string option"

record CelestialCoordinate =
  ra :: jsnum
  dec :: jsnum

record GeolocationCoords =
  latitude :: real
  longitude :: real
  altitude_m :: "real option"

record HorizontalCoordinate =
  azimuth :: jsnum
  altitude :: jsnum

datatype PlanetType = TypePlanet | TypeSun

record OrbitalElements =
  semiMajorAxis :: real
  eccentricity :: real
  inclination :: real
  longitudeOfAscendingNode :: real
  argumentOfPeriapsis :: real
  meanAnomalyAtEpoch :: real
  epoch :: real
  dailyMotion :: real

record PhysicalData =
  mass :: real
  diameter :: real
  distanceFromSun :: real
  orbitalPeriod :: real
  rotationPeriod :: real

record Planet =
  planet_id :: string
  planet_name :: string
  planet_commonName :: string
  planet_type :: PlanetType
  color :: nat
  radius :: real
  orbitalElements :: OrbitalElements
  physicalData :: PhysicalData

text \<open>An element of the array \<^verbatim>\<open>getVisiblePlanets\<close> returns: the planet's own fields
  (\<^verbatim>\<open>...planet\<close>) with \<^verbatim>\<open>position\<close> and \<^verbatim>\<open>horizontal\<close> added.\<close>

record VisiblePlanet =
  vp_planet :: Planet
  vp_position :: CelestialCoordinate
  vp_horizontal :: HorizontalCoordinate

record Vector3 =
  vec_x :: jsnum
  vec_y :: jsnum
  vec_z :: jsnum

text \<open>A \<^verbatim>\<open>Date\<close> is seen through the six UTC getters the service calls. A valid date
  is meant: the getters return integers (the month counted from 0).\<close>

record Date =
  getUTCFullYear :: int
  getUTCMonth :: int
  getUTCDate :: int
  getUTCHours :: int
  getUTCMinutes :: int
  getUTCSeconds :: int

record StarData =
  data_stars :: "Star list"
  data_constellations :: "Constellation list"

text \<open>
  The service object. A JavaScript \<^verbatim>\<open>Map\<close> keeps its entries in insertion order, so
  each of the three maps is an association list. \<^verbatim>\<open>STAR_DATA\<close> and
  \<^verbatim>\<open>PLANET_DATA\<close> are the object's two read-only fields.
\<close>

record StarCatalogService =
  stars :: "(string \<times> Star) list"
  constellations :: "(string \<times> Constellation) list"
  planets :: "(string \<times> Planet) list"
  isInitialized :: bool
  STAR_DATA :: StarData
  PLANET_DATA :: "Planet list"

record Statistics =
  totalStars :: nat
  totalConstellations :: nat
  totalPlanets :: nat
  brightestStar :: "Star option"

datatype error = Error string

section \<open>The embedded catalogue\<close>

definition star_hip_677 :: Star where
  "star_hip_677 = \<lparr>star_id = ''hip_677'', star_name = ''Alpheratz'', commonName = Some ''Alpha Andromedae'',
     star_ra = 2.096916, star_dec = 29.09043, magnitude = 2.06,
     spectralClass = Some ''B8IVpMnHg'', constellation = Some ''Andromeda''\<rparr>"

definition star_hip_113881 :: Star where
  "star_hip_113881 = \<lparr>star_id = ''hip_113881'', star_name = ''Fomalhaut'', commonName = Some ''Alpha Piscis Austrini'',
     star_ra = 344.41269, star_dec = - 29.62224, magnitude = 1.16,
     spectralClass = Some ''A3V'', constellation = Some ''Piscis Austrinus''\<rparr>"

definition star_hip_21421 :: Star where
  "star_hip_21421 = \<lparr>star_id = ''hip_21421'', star_name = ''Aldebaran'', commonName = Some ''Alpha Tauri'',
     star_ra = 68.98016, star_dec = 16.50930, magnitude = 0.85,
     spectralClass = Some ''K5III'', constellation = Some ''Taurus''\<rparr>"

definition star_hip_25336 :: Star where
  "star_hip_25336 = \<lparr>star_id = ''hip_25336'', star_name = ''Capella'', commonName = Some ''Alpha Aurigae'',
     star_ra = 79.17232, star_dec = 45.99799, magnitude = 0.08,
     spectralClass = Some ''G5III'', constellation = Some ''Auriga''\<rparr>"

definition star_hip_27989 :: Star where
  "star_hip_27989 = \<lparr>star_id = ''hip_27989'', star_name = ''Betelgeuse'', commonName = Some ''Alpha Orionis'',
     star_ra = 88.79294, star_dec = 7.40706, magnitude = 0.50,
     spectralClass = Some ''M1-M2Ia-Iab'', constellation = Some ''Orion''\<rparr>"

definition star_hip_24436 :: Star where
  "star_hip_24436 = \<lparr>star_id = ''hip_24436'', star_name = ''Bellatrix'', commonName = Some ''Gamma Orionis'',
     star_ra = 81.28277, star_dec = 6.34970, magnitude = 1.64,
     spectralClass = Some ''B2III'', constellation = Some ''Orion''\<rparr>"

definition star_hip_25930 :: Star where
  "star_hip_25930 = \<lparr>star_id = ''hip_25930'', star_name = ''Mintaka'', commonName = Some ''Delta Orionis'',
     star_ra = 83.00171, star_dec = - 0.29909, magnitude = 2.23,
     spectralClass = Some ''O9.5II'', constellation = Some ''Orion''\<rparr>"

definition star_hip_26311 :: Star where
  "star_hip_26311 = \<lparr>star_id = ''hip_26311'', star_name = ''Alnilam'', commonName = Some ''Epsilon Orionis'',
     star_ra = 84.05338, star_dec = - 1.20191, magnitude = 1.70,
     spectralClass = Some ''B0Ia'', constellation = Some ''Orion''\<rparr>"

definition star_hip_26727 :: Star where
  "star_hip_26727 = \<lparr>star_id = ''hip_26727'', star_name = ''Alnitak'', commonName = Some ''Zeta Orionis'',
     star_ra = 85.18965, star_dec = - 1.94258, magnitude = 1.79,
     spectralClass = Some ''O9.7Ib'', constellation = Some ''Orion''\<rparr>"

definition star_hip_32349 :: Star where
  "star_hip_32349 = \<lparr>star_id = ''hip_32349'', star_name = ''Sirius'', commonName = Some ''Alpha Canis Majoris'',
     star_ra = 101.28715, star_dec = - 16.71611, magnitude = - 1.46,
     spectralClass = Some ''A1V'', constellation = Some ''Canis Major''\<rparr>"

definition star_hip_37279 :: Star where
  "star_hip_37279 = \<lparr>star_id = ''hip_37279'', star_name = ''Procyon'', commonName = Some ''Alpha Canis Minoris'',
     star_ra = 114.82563, star_dec = 5.22499, magnitude = 0.38,
     spectralClass = Some ''F5IV-V'', constellation = Some ''Canis Minor''\<rparr>"

definition star_hip_69673 :: Star where
  "star_hip_69673 = \<lparr>star_id = ''hip_69673'', star_name = ''Arcturus'', commonName = Some ''Alpha Bootis'',
     star_ra = 213.91530, star_dec = 19.18241, magnitude = - 0.05,
     spectralClass = Some ''K1.5IIIFe-0.5'', constellation = Some ''Bootes''\<rparr>"

definition star_hip_91262 :: Star where
  "star_hip_91262 = \<lparr>star_id = ''hip_91262'', star_name = ''Vega'', commonName = Some ''Alpha Lyrae'',
     star_ra = 279.23473, star_dec = 38.78369, magnitude = 0.03,
     spectralClass = Some ''A0V'', constellation = Some ''Lyra''\<rparr>"

definition star_hip_102098 :: Star where
  "star_hip_102098 = \<lparr>star_id = ''hip_102098'', star_name = ''Deneb'', commonName = Some ''Alpha Cygni'',
     star_ra = 310.35798, star_dec = 45.28034, magnitude = 1.25,
     spectralClass = Some ''A2Ia'', constellation = Some ''Cygnus''\<rparr>"

definition star_hip_97649 :: Star where
  "star_hip_97649 = \<lparr>star_id = ''hip_97649'', star_name = ''Altair'', commonName = Some ''Alpha Aquilae'',
     star_ra = 297.69582, star_dec = 8.86832, magnitude = 0.77,
     spectralClass = Some ''A7V'', constellation = Some ''Aquila''\<rparr>"

definition star_hip_61084 :: Star where
  "star_hip_61084 = \<lparr>star_id = ''hip_61084'', star_name = ''Spica'', commonName = Some ''Alpha Virginis'',
     star_ra = 201.29825, star_dec = - 11.16132, magnitude = 1.04,
     spectralClass = Some ''B1III-IV'', constellation = Some ''Virgo''\<rparr>"

definition star_hip_68702 :: Star where
  "star_hip_68702 = \<lparr>star_id = ''hip_68702'', star_name = ''Antares'', commonName = Some ''Alpha Scorpii'',
     star_ra = 247.35191, star_dec = - 26.43200, magnitude = 1.09,
     spectralClass = Some ''M1.5Iab-Ib'', constellation = Some ''Scorpius''\<rparr>"

definition star_hip_54061 :: Star where
  "star_hip_54061 = \<lparr>star_id = ''hip_54061'', star_name = ''Dubhe'', commonName = Some ''Alpha Ursae Majoris'',
     star_ra = 165.93196, star_dec = 61.75103, magnitude = 1.79,
     spectralClass = Some ''K0III'', constellation = Some ''Ursa Major''\<rparr>"

definition star_hip_53910 :: Star where
  "star_hip_53910 = \<lparr>star_id = ''hip_53910'', star_name = ''Merak'', commonName = Some ''Beta Ursae Majoris'',
     star_ra = 165.46038, star_dec = 56.38245, magnitude = 2.37,
     spectralClass = Some ''A1V'', constellation = Some ''Ursa Major''\<rparr>"

definition star_hip_58001 :: Star where
  "star_hip_58001 = \<lparr>star_id = ''hip_58001'', star_name = ''Phecda'', commonName = Some ''Gamma Ursae Majoris'',
     star_ra = 178.45728, star_dec = 53.69476, magnitude = 2.44,
     spectralClass = Some ''A0V'', constellation = Some ''Ursa Major''\<rparr>"

definition star_hip_59774 :: Star where
  "star_hip_59774 = \<lparr>star_id = ''hip_59774'', star_name = ''Megrez'', commonName = Some ''Delta Ursae Majoris'',
     star_ra = 183.85657, star_dec = 57.03258, magnitude = 3.31,
     spectralClass = Some ''A3V'', constellation = Some ''Ursa Major''\<rparr>"

definition star_hip_62956 :: Star where
  "star_hip_62956 = \<lparr>star_id = ''hip_62956'', star_name = ''Alioth'', commonName = Some ''Epsilon Ursae Majoris'',
     star_ra = 193.50728, star_dec = 55.95982, magnitude = 1.77,
     spectralClass = Some ''A1III-IVp'', constellation = Some ''Ursa Major''\<rparr>"

definition star_hip_65378 :: Star where
  "star_hip_65378 = \<lparr>star_id = ''hip_65378'', star_name = ''Mizar'', commonName = Some ''Zeta Ursae Majoris'',
     star_ra = 200.98142, star_dec = 54.92535, magnitude = 2.27,
     spectralClass = Some ''A2V'', constellation = Some ''Ursa Major''\<rparr>"

definition star_hip_67301 :: Star where
  "star_hip_67301 = \<lparr>star_id = ''hip_67301'', star_name = ''Alkaid'', commonName = Some ''Eta Ursae Majoris'',
     star_ra = 206.88513, star_dec = 49.31324, magnitude = 1.86,
     spectralClass = Some ''B3V'', constellation = Some ''Ursa Major''\<rparr>"

definition star_hip_11767 :: Star where
  "star_hip_11767 = \<lparr>star_id = ''hip_11767'', star_name = ''Polaris'', commonName = Some ''Alpha Ursae Minoris'',
     star_ra = 37.95456, star_dec = 89.26411, magnitude = 1.98,
     spectralClass = Some ''F7Ib'', constellation = Some ''Ursa Minor''\<rparr>"

definition star_hip_85822 :: Star where
  "star_hip_85822 = \<lparr>star_id = ''hip_85822'', star_name = ''Kochab'', commonName = Some ''Beta Ursae Minoris'',
     star_ra = 222.67635, star_dec = 74.15550, magnitude = 2.08,
     spectralClass = Some ''K4III'', constellation = Some ''Ursa Minor''\<rparr>"

definition star_hip_82080 :: Star where
  "star_hip_82080 = \<lparr>star_id = ''hip_82080'', star_name = ''Pherkad'', commonName = Some ''Gamma Ursae Minoris'',
     star_ra = 230.18216, star_dec = 71.83402, magnitude = 3.05,
     spectralClass = Some ''A3II-III'', constellation = Some ''Ursa Minor''\<rparr>"

definition star_hip_77055 :: Star where
  "star_hip_77055 = \<lparr>star_id = ''hip_77055'', star_name = ''Yildun'', commonName = Some ''Delta Ursae Minoris'',
     star_ra = 211.09729, star_dec = 86.58638, magnitude = 4.35,
     spectralClass = Some ''A1Vn'', constellation = Some ''Ursa Minor''\<rparr>"

definition star_hip_75097 :: Star where
  "star_hip_75097 = \<lparr>star_id = ''hip_75097'', star_name = ''Urodelus'', commonName = Some ''Epsilon Ursae Minoris'',
     star_ra = 213.91192, star_dec = 82.03720, magnitude = 4.23,
     spectralClass = Some ''G5III'', constellation = Some ''Ursa Minor''\<rparr>"

definition star_hip_79822 :: Star where
  "star_hip_79822 = \<lparr>star_id = ''hip_79822'', star_name = ''Ahfa al Farkadain'', commonName = Some ''Zeta Ursae Minoris'',
     star_ra = 228.05758, star_dec = 77.79481, magnitude = 4.32,
     spectralClass = Some ''A3Vn'', constellation = Some ''Ursa Minor''\<rparr>"

definition star_hip_72607 :: Star where
  "star_hip_72607 = \<lparr>star_id = ''hip_72607'', star_name = ''Anwar al Farkadain'', commonName = Some ''Eta Ursae Minoris'',
     star_ra = 211.20944, star_dec = 73.28879, magnitude = 4.95,
     spectralClass = Some ''F5V'', constellation = Some ''Ursa Minor''\<rparr>"

definition star_hip_3179 :: Star where
  "star_hip_3179 = \<lparr>star_id = ''hip_3179'', star_name = ''Caph'', commonName = Some ''Beta Cassiopeiae'',
     star_ra = 10.12684, star_dec = 59.14978, magnitude = 2.27,
     spectralClass = Some ''F2III-IV'', constellation = Some ''Cassiopeia''\<rparr>"

definition star_hip_746 :: Star where
  "star_hip_746 = \<lparr>star_id = ''hip_746'', star_name = ''Schedar'', commonName = Some ''Alpha Cassiopeiae'',
     star_ra = 2.29716, star_dec = 56.53741, magnitude = 2.23,
     spectralClass = Some ''K0IIIa'', constellation = Some ''Cassiopeia''\<rparr>"

definition star_hip_4427 :: Star where
  "star_hip_4427 = \<lparr>star_id = ''hip_4427'', star_name = ''Gamma Cassiopeiae'', commonName = Some ''Tsih'',
     star_ra = 14.17713, star_dec = 60.71674, magnitude = 2.47,
     spectralClass = Some ''B0IVe'', constellation = Some ''Cassiopeia''\<rparr>"

definition star_hip_6686 :: Star where
  "star_hip_6686 = \<lparr>star_id = ''hip_6686'', star_name = ''Ruchbah'', commonName = Some ''Delta Cassiopeiae'',
     star_ra = 21.45343, star_dec = 60.23531, magnitude = 2.68,
     spectralClass = Some ''A5V'', constellation = Some ''Cassiopeia''\<rparr>"

definition star_hip_8886 :: Star where
  "star_hip_8886 = \<lparr>star_id = ''hip_8886'', star_name = ''Segin'', commonName = Some ''Epsilon Cassiopeiae'',
     star_ra = 28.59891, star_dec = 63.67007, magnitude = 3.38,
     spectralClass = Some ''B3III'', constellation = Some ''Cassiopeia''\<rparr>"

definition star_hip_49669 :: Star where
  "star_hip_49669 = \<lparr>star_id = ''hip_49669'', star_name = ''Regulus'', commonName = Some ''Alpha Leonis'',
     star_ra = 152.09296, star_dec = 11.96721, magnitude = 1.35,
     spectralClass = Some ''B8IVn'', constellation = Some ''Leo''\<rparr>"

definition star_hip_57632 :: Star where
  "star_hip_57632 = \<lparr>star_id = ''hip_57632'', star_name = ''Denebola'', commonName = Some ''Beta Leonis'',
     star_ra = 177.26499, star_dec = 14.57206, magnitude = 2.14,
     spectralClass = Some ''A3V'', constellation = Some ''Leo''\<rparr>"

definition star_hip_50583 :: Star where
  "star_hip_50583 = \<lparr>star_id = ''hip_50583'', star_name = ''Algieba'', commonName = Some ''Gamma Leonis'',
     star_ra = 154.99343, star_dec = 19.84186, magnitude = 2.08,
     spectralClass = Some ''K1III'', constellation = Some ''Leo''\<rparr>"

definition star_hip_54872 :: Star where
  "star_hip_54872 = \<lparr>star_id = ''hip_54872'', star_name = ''Zosma'', commonName = Some ''Delta Leonis'',
     star_ra = 168.52703, star_dec = 20.52426, magnitude = 2.56,
     spectralClass = Some ''A4V'', constellation = Some ''Leo''\<rparr>"

definition star_hip_47908 :: Star where
  "star_hip_47908 = \<lparr>star_id = ''hip_47908'', star_name = ''Algenubi'', commonName = Some ''Epsilon Leonis'',
     star_ra = 146.46707, star_dec = 23.77435, magnitude = 2.98,
     spectralClass = Some ''G1II'', constellation = Some ''Leo''\<rparr>"

definition star_hip_46750 :: Star where
  "star_hip_46750 = \<lparr>star_id = ''hip_46750'', star_name = ''Adhafera'', commonName = Some ''Zeta Leonis'',
     star_ra = 143.21396, star_dec = 23.41735, magnitude = 3.44,
     spectralClass = Some ''F0III'', constellation = Some ''Leo''\<rparr>"

definition star_hip_55642 :: Star where
  "star_hip_55642 = \<lparr>star_id = ''hip_55642'', star_name = ''Chort'', commonName = Some ''Theta Leonis'',
     star_ra = 170.83844, star_dec = 15.42958, magnitude = 3.34,
     spectralClass = Some ''A2V'', constellation = Some ''Leo''\<rparr>"

definition star_hip_54879 :: Star where
  "star_hip_54879 = \<lparr>star_id = ''hip_54879'', star_name = ''Coxa'', commonName = Some ''Iota Leonis'',
     star_ra = 168.56056, star_dec = 10.53272, magnitude = 3.94,
     spectralClass = Some ''F3V'', constellation = Some ''Leo''\<rparr>"

definition star_hip_56211 :: Star where
  "star_hip_56211 = \<lparr>star_id = ''hip_56211'', star_name = ''Chertan'', commonName = Some ''Mu Leonis'',
     star_ra = 172.49726, star_dec = 26.00677, magnitude = 3.88,
     spectralClass = Some ''K2III'', constellation = Some ''Leo''\<rparr>"

definition star_hip_100453 :: Star where
  "star_hip_100453 = \<lparr>star_id = ''hip_100453'', star_name = ''Sadr'', commonName = Some ''Gamma Cygni'',
     star_ra = 305.55715, star_dec = 40.25669, magnitude = 2.20,
     spectralClass = Some ''F8Ib'', constellation = Some ''Cygnus''\<rparr>"

definition star_hip_95947 :: Star where
  "star_hip_95947 = \<lparr>star_id = ''hip_95947'', star_name = ''Gienah'', commonName = Some ''Epsilon Cygni'',
     star_ra = 292.68035, star_dec = 33.97029, magnitude = 2.46,
     spectralClass = Some ''K0III'', constellation = Some ''Cygnus''\<rparr>"

definition star_hip_104732 :: Star where
  "star_hip_104732 = \<lparr>star_id = ''hip_104732'', star_name = ''Albireo'', commonName = Some ''Beta Cygni'',
     star_ra = 292.68035, star_dec = 27.95968, magnitude = 3.08,
     spectralClass = Some ''K3II'', constellation = Some ''Cygnus''\<rparr>"

definition star_hip_94779 :: Star where
  "star_hip_94779 = \<lparr>star_id = ''hip_94779'', star_name = ''Fawaris'', commonName = Some ''Delta Cygni'',
     star_ra = 289.24498, star_dec = 45.13081, magnitude = 2.87,
     spectralClass = Some ''A0IV'', constellation = Some ''Cygnus''\<rparr>"

definition constellation_orion :: Constellation where
  "constellation_orion = \<lparr>constellation_id = ''orion'', constellation_name = ''Orion'',
     constellation_abbreviation = ''Ori'',
     constellation_stars = [''hip_27989'', ''hip_24436'', ''hip_25930'', ''hip_26311'', ''hip_26727''],
     lines =
       [\<lparr>line_from = ''hip_25930'', line_to = ''hip_26311''\<rparr>,
        \<lparr>line_from = ''hip_26311'', line_to = ''hip_26727''\<rparr>,
        \<lparr>line_from = ''hip_24436'', line_to = ''hip_27989''\<rparr>,
        \<lparr>line_from = ''hip_24436'', line_to = ''hip_25930''\<rparr>,
        \<lparr>line_from = ''hip_27989'', line_to = ''hip_26311''\<rparr>],
     mythology = Some ''The Hunter in Greek mythology''\<rparr>"

definition constellation_canis_major :: Constellation where
  "constellation_canis_major = \<lparr>constellation_id = ''canis_major'', constellation_name = ''Canis Major'',
     constellation_abbreviation = ''CMa'',
     constellation_stars = [''hip_32349''],
     lines =
       [],
     mythology = Some (''Orion'' @ [CHR 0x27] @ ''s hunting dog'')\<rparr>"

definition constellation_summer_triangle :: Constellation where
  "constellation_summer_triangle = \<lparr>constellation_id = ''summer_triangle'', constellation_name = ''Summer Triangle'',
     constellation_abbreviation = ''ST'',
     constellation_stars = [''hip_91262'', ''hip_102098'', ''hip_97649''],
     lines =
       [\<lparr>line_from = ''hip_91262'', line_to = ''hip_102098''\<rparr>,
        \<lparr>line_from = ''hip_102098'', line_to = ''hip_97649''\<rparr>,
        \<lparr>line_from = ''hip_97649'', line_to = ''hip_91262''\<rparr>],
     mythology = Some ''Three bright stars forming a triangle in summer sky''\<rparr>"

definition constellation_taurus :: Constellation where
  "constellation_taurus = \<lparr>constellation_id = ''taurus'', constellation_name = ''Taurus'',
     constellation_abbreviation = ''Tau'',
     constellation_stars = [''hip_21421''],
     lines =
       [],
     mythology = Some ''The Bull - contains the bright star Aldebaran''\<rparr>"

definition constellation_ursa_major :: Constellation where
  "constellation_ursa_major = \<lparr>constellation_id = ''ursa_major'', constellation_name = ''Ursa Major'',
     constellation_abbreviation = ''UMa'',
     constellation_stars = [''hip_54061'', ''hip_53910'', ''hip_58001'', ''hip_59774'', ''hip_62956'', ''hip_65378'', ''hip_67301''],
     lines =
       [\<lparr>line_from = ''hip_54061'', line_to = ''hip_53910''\<rparr>,
        \<lparr>line_from = ''hip_53910'', line_to = ''hip_58001''\<rparr>,
        \<lparr>line_from = ''hip_58001'', line_to = ''hip_59774''\<rparr>,
        \<lparr>line_from = ''hip_59774'', line_to = ''hip_54061''\<rparr>,
        \<lparr>line_from = ''hip_59774'', line_to = ''hip_62956''\<rparr>,
        \<lparr>line_from = ''hip_62956'', line_to = ''hip_65378''\<rparr>,
        \<lparr>line_from = ''hip_65378'', line_to = ''hip_67301''\<rparr>],
     mythology = Some ''The Great Bear - most recognizable constellation in northern sky''\<rparr>"

definition constellation_ursa_minor :: Constellation where
  "constellation_ursa_minor = \<lparr>constellation_id = ''ursa_minor'', constellation_name = ''Ursa Minor'',
     constellation_abbreviation = ''UMi'',
     constellation_stars = [''hip_11767'', ''hip_85822'', ''hip_82080'', ''hip_77055'', ''hip_75097'', ''hip_79822'', ''hip_72607''],
     lines =
       [\<lparr>line_from = ''hip_85822'', line_to = ''hip_82080''\<rparr>,
        \<lparr>line_from = ''hip_82080'', line_to = ''hip_79822''\<rparr>,
        \<lparr>line_from = ''hip_79822'', line_to = ''hip_72607''\<rparr>,
        \<lparr>line_from = ''hip_72607'', line_to = ''hip_85822''\<rparr>,
        \<lparr>line_from = ''hip_72607'', line_to = ''hip_75097''\<rparr>,
        \<lparr>line_from = ''hip_75097'', line_to = ''hip_77055''\<rparr>,
        \<lparr>line_from = ''hip_77055'', line_to = ''hip_11767''\<rparr>],
     mythology = Some ''The Little Bear - contains Polaris, the North Star''\<rparr>"

definition constellation_cassiopeia :: Constellation where
  "constellation_cassiopeia = \<lparr>constellation_id = ''cassiopeia'', constellation_name = ''Cassiopeia'',
     constellation_abbreviation = ''Cas'',
     constellation_stars = [''hip_746'', ''hip_3179'', ''hip_4427'', ''hip_6686'', ''hip_8886''],
     lines =
       [\<lparr>line_from = ''hip_746'', line_to = ''hip_3179''\<rparr>,
        \<lparr>line_from = ''hip_3179'', line_to = ''hip_4427''\<rparr>,
        \<lparr>line_from = ''hip_4427'', line_to = ''hip_6686''\<rparr>,
        \<lparr>line_from = ''hip_6686'', line_to = ''hip_8886''\<rparr>],
     mythology = Some ''The Queen - distinctive W-shaped constellation''\<rparr>"

definition constellation_leo :: Constellation where
  "constellation_leo = \<lparr>constellation_id = ''leo'', constellation_name = ''Leo'',
     constellation_abbreviation = ''Leo'',
     constellation_stars = [''hip_49669'', ''hip_57632'', ''hip_50583'', ''hip_54872'', ''hip_47908'', ''hip_46750'', ''hip_55642'', ''hip_54879'', ''hip_56211''],
     lines =
       [\<lparr>line_from = ''hip_49669'', line_to = ''hip_47908''\<rparr>,
        \<lparr>line_from = ''hip_47908'', line_to = ''hip_56211''\<rparr>,
        \<lparr>line_from = ''hip_56211'', line_to = ''hip_46750''\<rparr>,
        \<lparr>line_from = ''hip_46750'', line_to = ''hip_50583''\<rparr>,
        \<lparr>line_from = ''hip_50583'', line_to = ''hip_47908''\<rparr>,
        \<lparr>line_from = ''hip_49669'', line_to = ''hip_54872''\<rparr>,
        \<lparr>line_from = ''hip_54872'', line_to = ''hip_55642''\<rparr>,
        \<lparr>line_from = ''hip_55642'', line_to = ''hip_57632''\<rparr>,
        \<lparr>line_from = ''hip_54872'', line_to = ''hip_54879''\<rparr>],
     mythology = Some ''The Lion - represents the Nemean Lion defeated by Hercules''\<rparr>"

definition constellation_cygnus :: Constellation where
  "constellation_cygnus = \<lparr>constellation_id = ''cygnus'', constellation_name = ''Cygnus'',
     constellation_abbreviation = ''Cyg'',
     constellation_stars = [''hip_102098'', ''hip_100453'', ''hip_95947'', ''hip_104732'', ''hip_94779''],
     lines =
       [\<lparr>line_from = ''hip_102098'', line_to = ''hip_100453''\<rparr>,
        \<lparr>line_from = ''hip_100453'', line_to = ''hip_104732''\<rparr>,
        \<lparr>line_from = ''hip_95947'', line_to = ''hip_94779''\<rparr>,
        \<lparr>line_from = ''hip_95947'', line_to = ''hip_100453''\<rparr>,
        \<lparr>line_from = ''hip_100453'', line_to = ''hip_94779''\<rparr>],
     mythology = Some ''The Swan - also known as the Northern Cross''\<rparr>"

definition embedded_STAR_DATA :: StarData where
  "embedded_STAR_DATA = \<lparr>data_stars =
      [star_hip_677, star_hip_113881, star_hip_21421, star_hip_25336, star_hip_27989, 
       star_hip_24436, star_hip_25930, star_hip_26311, star_hip_26727, star_hip_32349, 
       star_hip_37279, star_hip_69673, star_hip_91262, star_hip_102098, star_hip_97649, 
       star_hip_61084, star_hip_68702, star_hip_54061, star_hip_53910, star_hip_58001, 
       star_hip_59774, star_hip_62956, star_hip_65378, star_hip_67301, star_hip_11767, 
       star_hip_85822, star_hip_82080, star_hip_77055, star_hip_75097, star_hip_79822, 
       star_hip_72607, star_hip_3179, star_hip_746, star_hip_4427, star_hip_6686, 
       star_hip_8886, star_hip_49669, star_hip_57632, star_hip_50583, star_hip_54872, 
       star_hip_47908, star_hip_46750, star_hip_55642, star_hip_54879, star_hip_56211, 
       star_hip_100453, star_hip_95947, star_hip_104732, star_hip_94779],
    data_constellations =
      [constellation_orion, constellation_canis_major, constellation_summer_triangle, 
       constellation_taurus, constellation_ursa_major, constellation_ursa_minor, 
       constellation_cassiopeia, constellation_leo, constellation_cygnus]\<rparr>"

definition planet_sun :: Planet where
  "planet_sun = \<lparr>planet_id = ''sun'', planet_name = ''Sun'', planet_commonName = ''Sol'',
     planet_type = TypeSun, color = 16766720, radius = 8.0,
     orbitalElements = \<lparr>semiMajorAxis = 0, eccentricity = 0, inclination = 0,
       longitudeOfAscendingNode = 0, argumentOfPeriapsis = 0,
       meanAnomalyAtEpoch = 0, epoch = 2451545.0, dailyMotion = 0\<rparr>,
     physicalData = \<lparr>mass = 333000, diameter = 109, distanceFromSun = 0,
       orbitalPeriod = 0, rotationPeriod = 25.4\<rparr>\<rparr>"

definition planet_mercury :: Planet where
  "planet_mercury = \<lparr>planet_id = ''mercury'', planet_name = ''Mercury'', planet_commonName = ''Mercury'',
     planet_type = TypePlanet, color = 16753920, radius = 2.5,
     orbitalElements = \<lparr>semiMajorAxis = 0.38709927, eccentricity = 0.20563593, inclination = 7.00497902,
       longitudeOfAscendingNode = 48.33076593, argumentOfPeriapsis = 77.45779628,
       meanAnomalyAtEpoch = 252.25032350, epoch = 2451545.0, dailyMotion = 4.0923344368\<rparr>,
     physicalData = \<lparr>mass = 0.055, diameter = 0.383, distanceFromSun = 0.39,
       orbitalPeriod = 87.97, rotationPeriod = 58.65\<rparr>\<rparr>"

definition planet_venus :: Planet where
  "planet_venus = \<lparr>planet_id = ''venus'', planet_name = ''Venus'', planet_commonName = ''Venus'',
     planet_type = TypePlanet, color = 16711680, radius = 3.5,
     orbitalElements = \<lparr>semiMajorAxis = 0.72333566, eccentricity = 0.00677672, inclination = 3.39467605,
       longitudeOfAscendingNode = 76.67984255, argumentOfPeriapsis = 131.60246718,
       meanAnomalyAtEpoch = 181.97909950, epoch = 2451545.0, dailyMotion = 1.6021302244\<rparr>,
     physicalData = \<lparr>mass = 0.815, diameter = 0.949, distanceFromSun = 0.72,
       orbitalPeriod = 224.70, rotationPeriod = - 243.02\<rparr>\<rparr>"

definition planet_earth :: Planet where
  "planet_earth = \<lparr>planet_id = ''earth'', planet_name = ''Earth'', planet_commonName = ''Earth'',
     planet_type = TypePlanet, color = 7050198, radius = 3.5,
     orbitalElements = \<lparr>semiMajorAxis = 1.00000261, eccentricity = 0.01671123, inclination = - 0.00001531,
       longitudeOfAscendingNode = 0.0, argumentOfPeriapsis = 102.93768193,
       meanAnomalyAtEpoch = 100.46457166, epoch = 2451545.0, dailyMotion = 0.9856002585\<rparr>,
     physicalData = \<lparr>mass = 1.0, diameter = 1.0, distanceFromSun = 1.0,
       orbitalPeriod = 365.25, rotationPeriod = 1.0\<rparr>\<rparr>"

definition planet_mars :: Planet where
  "planet_mars = \<lparr>planet_id = ''mars'', planet_name = ''Mars'', planet_commonName = ''Mars'',
     planet_type = TypePlanet, color = 16711680, radius = 3.0,
     orbitalElements = \<lparr>semiMajorAxis = 1.52371034, eccentricity = 0.09339410, inclination = 1.84969142,
       longitudeOfAscendingNode = 49.55953891, argumentOfPeriapsis = - 4.55343205,
       meanAnomalyAtEpoch = - 4.55343205, epoch = 2451545.0, dailyMotion = 0.5240207766\<rparr>,
     physicalData = \<lparr>mass = 0.107, diameter = 0.532, distanceFromSun = 1.52,
       orbitalPeriod = 686.98, rotationPeriod = 1.03\<rparr>\<rparr>"

definition planet_jupiter :: Planet where
  "planet_jupiter = \<lparr>planet_id = ''jupiter'', planet_name = ''Jupiter'', planet_commonName = ''Jupiter'',
     planet_type = TypePlanet, color = 8388736, radius = 6.0,
     orbitalElements = \<lparr>semiMajorAxis = 5.20288700, eccentricity = 0.04838624, inclination = 1.30439695,
       longitudeOfAscendingNode = 100.47390909, argumentOfPeriapsis = 273.86740900,
       meanAnomalyAtEpoch = 19.89511400, epoch = 2451545.0, dailyMotion = 0.0831294023\<rparr>,
     physicalData = \<lparr>mass = 317.8, diameter = 11.21, distanceFromSun = 5.20,
       orbitalPeriod = 4332.59, rotationPeriod = 0.41\<rparr>\<rparr>"

definition planet_saturn :: Planet where
  "planet_saturn = \<lparr>planet_id = ''saturn'', planet_name = ''Saturn'', planet_commonName = ''Saturn'',
     planet_type = TypePlanet, color = 16711680, radius = 5.5,
     orbitalElements = \<lparr>semiMajorAxis = 9.53667594, eccentricity = 0.05386179, inclination = 2.48599187,
       longitudeOfAscendingNode = 113.66242448, argumentOfPeriapsis = 339.39291900,
       meanAnomalyAtEpoch = 316.96735300, epoch = 2451545.0, dailyMotion = 0.0334442282\<rparr>,
     physicalData = \<lparr>mass = 95.2, diameter = 9.45, distanceFromSun = 9.54,
       orbitalPeriod = 10759.22, rotationPeriod = 0.45\<rparr>\<rparr>"

definition planet_uranus :: Planet where
  "planet_uranus = \<lparr>planet_id = ''uranus'', planet_name = ''Uranus'', planet_commonName = ''Uranus'',
     planet_type = TypePlanet, color = 255, radius = 4.5,
     orbitalElements = \<lparr>semiMajorAxis = 19.18916464, eccentricity = 0.04725744, inclination = 0.77263783,
       longitudeOfAscendingNode = 74.01692503, argumentOfPeriapsis = 96.99839200,
       meanAnomalyAtEpoch = 142.23851000, epoch = 2451545.0, dailyMotion = 0.0116771814\<rparr>,
     physicalData = \<lparr>mass = 14.5, diameter = 4.01, distanceFromSun = 19.22,
       orbitalPeriod = 30688.5, rotationPeriod = - 0.72\<rparr>\<rparr>"

definition planet_neptune :: Planet where
  "planet_neptune = \<lparr>planet_id = ''neptune'', planet_name = ''Neptune'', planet_commonName = ''Neptune'',
     planet_type = TypePlanet, color = 255, radius = 4.3,
     orbitalElements = \<lparr>semiMajorAxis = 30.06992276, eccentricity = 0.00859048, inclination = 1.77004347,
       longitudeOfAscendingNode = 131.78422574, argumentOfPeriapsis = 272.8461100,
       meanAnomalyAtEpoch = 260.2471152, epoch = 2451545.0, dailyMotion = 0.0060190454\<rparr>,
     physicalData = \<lparr>mass = 17.1, diameter = 3.88, distanceFromSun = 30.05,
       orbitalPeriod = 60182, rotationPeriod = 0.67\<rparr>\<rparr>"

definition embedded_PLANET_DATA :: "Planet list" where
  "embedded_PLANET_DATA =
     [planet_sun, planet_mercury, planet_venus, planet_earth, planet_mars, 
      planet_jupiter, planet_saturn, planet_uranus, planet_neptune]"

section \<open>Library operations of JavaScript\<close>

text \<open>\<^verbatim>\<open>Map.prototype.set\<close> replaces the value of a key that is present, in place, and
  appends a new key; \<^verbatim>\<open>get\<close> looks a key up; \<^verbatim>\<open>values()\<close> lists the values in
  insertion order; \<^verbatim>\<open>size\<close> counts the entries.\<close>

definition Map_set :: "'k \<Rightarrow> 'v \<Rightarrow> ('k \<times> 'v) list \<Rightarrow> ('k \<times> 'v) list" where
  "Map_set k v m = AList.update k v m"

definition Map_get :: "('k \<times> 'v) list \<Rightarrow> 'k \<Rightarrow> 'v option" where
  "Map_get m k = map_of m k"

definition Map_values :: "('k \<times> 'v) list \<Rightarrow> 'v list" where
  "Map_values m = map snd m"

definition Map_size :: "('k \<times> 'v) list \<Rightarrow> nat" where
  "Map_size m = length m"

text \<open>
  \<^verbatim>\<open>xs.sort((a, b) => a.magnitude - b.magnitude)\<close>. \<^verbatim>\<open>Array.prototype.sort\<close> is a
  stable sort (ECMAScript 2019). The magnitudes are finite, so the comparator is a
  consistent one and the result is the one stable arrangement by ascending magnitude,
  which the insertion sort \<^const>\<open>sort_key\<close> computes.
\<close>

definition sort_by_magnitude :: "Star list \<Rightarrow> Star list" where
  "sort_by_magnitude xs = sort_key magnitude xs"

text \<open>Strings: \<^verbatim>\<open>toLowerCase\<close> and \<^verbatim>\<open>trim\<close> on ASCII text (the catalogue's names are
  ASCII), and \<^verbatim>\<open>includes\<close>, the search for a contiguous substring.\<close>

definition toLowerCase :: "string \<Rightarrow> string" where
  "toLowerCase s =
     map (\<lambda>c. if CHR ''A'' \<le> c \<and> c \<le> CHR ''Z'' then char_of (of_char c + (32::nat)) else c) s"

definition isWhiteSpace :: "char \<Rightarrow> bool" where
  "isWhiteSpace c = (c \<in> {CHR '' '', CHR 0x09, CHR 0x0A, CHR 0x0B, CHR 0x0C, CHR 0x0D})"

definition trim :: "string \<Rightarrow> string" where
  "trim s = rev (dropWhile isWhiteSpace (rev (dropWhile isWhiteSpace s)))"

fun String_includes :: "string \<Rightarrow> string \<Rightarrow> bool" where
  "String_includes [] q = (q = [])"
| "String_includes (c # cs) q = (prefix q (c # cs) \<or> String_includes cs q)"

section \<open>The service\<close>

text \<open>\<^verbatim>\<open>getInstance()\<close> on its first call: the object as its field initialisers and
  the empty constructor leave it.\<close>

definition getInstance :: StarCatalogService where
  "getInstance =
     \<lparr>stars = [], constellations = [], planets = [], isInitialized = False,
      STAR_DATA = embedded_STAR_DATA, PLANET_DATA = embedded_PLANET_DATA\<rparr>"

definition notInitialized :: error where
  "notInitialized = Error ''Star catalog not initialized''"

subsection \<open>Loading\<close>




subsection \<open>Time\<close>

text \<open>The UTC getters of a \<^verbatim>\<open>Date\<close> return integers; \<open>getter i\<close> is the
  \<^verbatim>\<open>number\<close> for the integer \<open>i\<close>.\<close>

definition getter :: "int \<Rightarrow> jsnum" where
  "getter i = num (of_int i)"

definition dateToJulianDay :: "Date \<Rightarrow> jsnum" where
  "dateToJulianDay date =
     (let a = Math_floor ((Fin 14 - (getter (getUTCMonth date) + Fin 1)) / Fin 12);
          y = getter (getUTCFullYear date) + Fin 4800 - a;
          m = (getter (getUTCMonth date) + Fin 1) + Fin 12 * a - Fin 3;
          jdn = getter (getUTCDate date) + Math_floor ((Fin 153 * m + Fin 2) / Fin 5) +
                Fin 365 * y + Math_floor (y / Fin 4) - Math_floor (y / Fin 100) +
                Math_floor (y / Fin 400) - Fin 32045;
          jd = jdn + (getter (getUTCHours date) - Fin 12) / Fin 24 +
               getter (getUTCMinutes date) / Fin 1440 + getter (getUTCSeconds date) / Fin 86400
      in jd)"

definition calculateLocalSiderealTime :: "jsnum \<Rightarrow> Date \<Rightarrow> jsnum option" where
  "calculateLocalSiderealTime longitude' timestamp = do {
     let jd = dateToJulianDay timestamp;
     let t = (jd - Fin 2451545) / Fin 36525;
     gmst \<leftarrow> normalizeAngle (num 280.46061837 + num 360.98564736629 * (jd - Fin 2451545) +
                 num 0.000387933 * t * t - t * t * t / Fin 38710000);
     let lst = gmst + longitude';
     normalizeAngle lst
   }"

subsection \<open>Spherical geometry\<close>

definition celestialToHorizontal ::
    "CelestialCoordinate \<Rightarrow> GeolocationCoords \<Rightarrow> Date \<Rightarrow> HorizontalCoordinate option" where
  "celestialToHorizontal celestial location timestamp = do {
     lst \<leftarrow> calculateLocalSiderealTime (num (longitude location)) timestamp;
     let hourAngle = lst - ra celestial;
     let latRad = (num (latitude location) * Math_PI) / Fin 180;
     let decRad = (dec celestial * Math_PI) / Fin 180;
     let haRad = (hourAngle * Math_PI) / Fin 180;
     let sinAlt = Math_sin decRad * Math_sin latRad +
                  Math_cos decRad * Math_cos latRad * Math_cos haRad;
     let altitude' = Math_asin sinAlt * Fin 180 / Math_PI;
     let cosAz = (Math_sin decRad - Math_sin latRad * sinAlt) /
                 (Math_cos latRad * Math_cos (Math_asin sinAlt));
     let azimuth' = Math_acos (Math_max (Fin (- 1)) (Math_min (Fin 1) cosAz)) * Fin 180 / Math_PI;
     let azimuth'' = (if Fin 0 < Math_sin haRad then Fin 360 - azimuth' else azimuth');
     Some \<lparr>azimuth = azimuth'', altitude = altitude'\<rparr>
   }"

definition calculateAngularDistance :: "CelestialCoordinate \<Rightarrow> CelestialCoordinate \<Rightarrow> jsnum" where
  "calculateAngularDistance coord1 coord2 =
     (let ra1Rad = (ra coord1 * Math_PI) / Fin 180;
          dec1Rad = (dec coord1 * Math_PI) / Fin 180;
          ra2Rad = (ra coord2 * Math_PI) / Fin 180;
          dec2Rad = (dec coord2 * Math_PI) / Fin 180;
          deltaRa = ra2Rad - ra1Rad;
          distance = Math_acos (Math_sin dec1Rad * Math_sin dec2Rad +
                       Math_cos dec1Rad * Math_cos dec2Rad * Math_cos deltaRa)
      in (distance * Fin 180) / Math_PI)"

definition isAboveHorizon :: "Star \<Rightarrow> GeolocationCoords \<Rightarrow> Date \<Rightarrow> bool option" where
  "isAboveHorizon star location timestamp = do {
     horizontal \<leftarrow> celestialToHorizontal
       \<lparr>ra = num (star_ra star), dec = num (star_dec star)\<rparr> location timestamp;
     Some (Fin (- 0.5) < altitude horizontal)
   }"

subsection \<open>Star queries\<close>

text \<open>The body of each \<^verbatim>\<open>for (const star of Array.from(this.stars.values()))\<close> loop:
  the last argument is the array the loop pushes to.\<close>

fun getVisibleStars_loop ::
    "GeolocationCoords \<Rightarrow> real \<Rightarrow> Date \<Rightarrow> Star list \<Rightarrow> Star list \<Rightarrow> Star list option" where
  "getVisibleStars_loop location maxMagnitude timestamp [] visibleStars = Some visibleStars"
| "getVisibleStars_loop location maxMagnitude timestamp (star # rest) visibleStars =
     (if maxMagnitude < magnitude star
      then getVisibleStars_loop location maxMagnitude timestamp rest visibleStars
      else do {
        above \<leftarrow> isAboveHorizon star location timestamp;
        getVisibleStars_loop location maxMagnitude timestamp rest
          (if above then visibleStars @ [star] else visibleStars)
      })"

definition getVisibleStars ::
    "StarCatalogService \<Rightarrow> GeolocationCoords \<Rightarrow> real \<Rightarrow> Date \<Rightarrow> (error + Star list) option" where
  "getVisibleStars this location maxMagnitude timestamp =
     (if \<not> isInitialized this then Some (Inl notInitialized)
      else do {
        visibleStars \<leftarrow>
          getVisibleStars_loop location maxMagnitude timestamp (Map_values (stars this)) [];
        Some (Inr (sort_by_magnitude visibleStars))
      })"

fun getStarsInView_loop ::
    "CelestialCoordinate \<Rightarrow> jsnum \<Rightarrow> real \<Rightarrow> Star list \<Rightarrow> Star list \<Rightarrow> Star list" where
  "getStarsInView_loop centerCoordinate maxDistance maxMagnitude [] starsInView = starsInView"
| "getStarsInView_loop centerCoordinate maxDistance maxMagnitude (star # rest) starsInView =
     (if maxMagnitude < magnitude star
      then getStarsInView_loop centerCoordinate maxDistance maxMagnitude rest starsInView
      else
        (let distance = calculateAngularDistance
               \<lparr>ra = num (star_ra star), dec = num (star_dec star)\<rparr> centerCoordinate
         in getStarsInView_loop centerCoordinate maxDistance maxMagnitude rest
              (if distance \<le> maxDistance then starsInView @ [star] else starsInView)))"

definition getStarsInView ::
    "StarCatalogService \<Rightarrow> CelestialCoordinate \<Rightarrow> real \<Rightarrow> real \<Rightarrow> error + Star list" where
  "getStarsInView this centerCoordinate fieldOfViewDegrees maxMagnitude =
     (if \<not> isInitialized this then Inl notInitialized
      else
        (let maxDistance = num fieldOfViewDegrees / Fin 2
         in Inr (sort_by_magnitude
              (getStarsInView_loop centerCoordinate maxDistance maxMagnitude
                 (Map_values (stars this)) []))))"

fun searchStars_loop :: "string \<Rightarrow> Star list \<Rightarrow> Star list \<Rightarrow> Star list" where
  "searchStars_loop sanitizedQuery [] results = results"
| "searchStars_loop sanitizedQuery (star # rest) results =
     (let nameMatch = String_includes (toLowerCase (star_name star)) sanitizedQuery;
          commonNameMatch =
            (case commonName star of
               None \<Rightarrow> False
             | Some cn \<Rightarrow> String_includes (toLowerCase cn) sanitizedQuery)
      in searchStars_loop sanitizedQuery rest
           (if nameMatch \<or> commonNameMatch then results @ [star] else results))"

definition searchStars :: "StarCatalogService \<Rightarrow> string \<Rightarrow> error + Star list" where
  "searchStars this query =
     (if \<not> isInitialized this then Inl notInitialized
      else
        (let sanitizedQuery = trim (toLowerCase query)
         in Inr (sort_by_magnitude
              (searchStars_loop sanitizedQuery (Map_values (stars this)) []))))"

subsection \<open>Lookups\<close>

text \<open>None of the six has a \<^verbatim>\<open>throw\<close>: each returns its value, here \<open>Inr\<close>.\<close>

definition getStar :: "StarCatalogService \<Rightarrow> string \<Rightarrow> error + Star option" where
  "getStar this id' = Inr (Map_get (stars this) id')"

definition getConstellations :: "StarCatalogService \<Rightarrow> error + Constellation list" where
  "getConstellations this = Inr (Map_values (constellations this))"

definition getConstellation :: "StarCatalogService \<Rightarrow> string \<Rightarrow> error + Constellation option" where
  "getConstellation this id' = Inr (Map_get (constellations this) id')"

definition getPlanets :: "StarCatalogService \<Rightarrow> error + Planet list" where
  "getPlanets this = Inr (Map_values (planets this))"

definition getPlanet :: "StarCatalogService \<Rightarrow> string \<Rightarrow> error + Planet option" where
  "getPlanet this id' = Inr (Map_get (planets this) id')"

text \<open>
  \<^verbatim>\<open>stars.reduce((brightest, star) => star.magnitude < brightest.magnitude ? star : brightest,
  stars[0] || null)\<close>: on the empty array the initial value \<^verbatim>\<open>null\<close> is returned and
  the callback is not called; otherwise the fold starts from the first star and visits
  every star, the first one included.
\<close>

definition getStatistics :: "StarCatalogService \<Rightarrow> error + Statistics" where
  "getStatistics this =
     (let stars' = Map_values (stars this);
          brightestStar' =
            (case stars' of
               [] \<Rightarrow> None
             | first # _ \<Rightarrow>
                 Some (foldl (\<lambda>brightest star.
                         if magnitude star < magnitude brightest then star else brightest)
                       first stars'))
      in Inr \<lparr>totalStars = Map_size (stars this),
               totalConstellations = Map_size (constellations this),
               totalPlanets = Map_size (planets this),
               brightestStar = brightestStar'\<rparr>)"

subsection \<open>Planets\<close>

definition calculateSunPosition :: "Date \<Rightarrow> CelestialCoordinate option" where
  "calculateSunPosition timestamp = do {
     let jd = dateToJulianDay timestamp;
     let n = jd - Fin 2451545;
     L \<leftarrow> normalizeAngle (num 280.460 + num 0.9856474 * n);
     g0 \<leftarrow> normalizeAngle (num 357.528 + num 0.9856003 * n);
     let g = g0 * Math_PI / Fin 180;
     lambda \<leftarrow> normalizeAngle
       (L + num 1.915 * Math_sin g + num 0.020 * Math_sin (Fin 2 * g));
     let lambdaRad = lambda * Math_PI / Fin 180;
     let obliquity = num 23.439 * Math_PI / Fin 180;
     let ra' = Math_atan2 (Math_cos obliquity * Math_sin lambdaRad) (Math_cos lambdaRad)
                 * Fin 180 / Math_PI;
     let dec' = Math_asin (Math_sin obliquity * Math_sin lambdaRad) * Fin 180 / Math_PI;
     ra'' \<leftarrow> normalizeAngle ra';
     Some \<lparr>ra = ra'', dec = dec'\<rparr>
   }"

text \<open>The \<^verbatim>\<open>for (let i = 0; i < 10; i++)\<close> loop of \<^verbatim>\<open>solveKeplerEquation\<close>, with
  its \<^verbatim>\<open>break\<close>; the first argument counts the iterations that remain.\<close>

fun solveKeplerEquation_loop :: "nat \<Rightarrow> jsnum \<Rightarrow> jsnum \<Rightarrow> jsnum \<Rightarrow> jsnum" where
  "solveKeplerEquation_loop 0 eccentricity' M E = E"
| "solveKeplerEquation_loop (Suc k) eccentricity' M E =
     (let dE = (E - eccentricity' * Math_sin E - M) / (Fin 1 - eccentricity' * Math_cos E);
          E' = E - dE
      in if Math_abs dE < num 0.00000001 then E'
         else solveKeplerEquation_loop k eccentricity' M E')"

definition solveKeplerEquation :: "jsnum \<Rightarrow> jsnum \<Rightarrow> jsnum" where
  "solveKeplerEquation meanAnomaly eccentricity' =
     (let M = meanAnomaly * Math_PI / Fin 180;
          E = solveKeplerEquation_loop 10 eccentricity' M M
      in E * Fin 180 / Math_PI)"

definition calculateTrueAnomaly :: "jsnum \<Rightarrow> jsnum \<Rightarrow> jsnum option" where
  "calculateTrueAnomaly eccentricAnomaly eccentricity' =
     (let E = eccentricAnomaly * Math_PI / Fin 180;
          nu = Fin 2 * Math_atan2
                 (Math_sqrt (Fin 1 + eccentricity') * Math_sin (E / Fin 2))
                 (Math_sqrt (Fin 1 - eccentricity') * Math_cos (E / Fin 2))
      in normalizeAngle (nu * Fin 180 / Math_PI))"

definition calculateHeliocentricCoordinates :: "Planet \<Rightarrow> jsnum \<Rightarrow> Vector3" where
  "calculateHeliocentricCoordinates planet trueAnomaly =
     (let nu = trueAnomaly * Math_PI / Fin 180;
          omega = num (argumentOfPeriapsis (orbitalElements planet)) * Math_PI / Fin 180;
          Omega = num (longitudeOfAscendingNode (orbitalElements planet)) * Math_PI / Fin 180;
          i = num (inclination (orbitalElements planet)) * Math_PI / Fin 180;
          e = num (eccentricity (orbitalElements planet));
          a = num (semiMajorAxis (orbitalElements planet));
          r = a * (Fin 1 - e * e) / (Fin 1 + e * Math_cos nu);
          xOrb = r * Math_cos nu;
          yOrb = r * Math_sin nu;
          x = xOrb * (Math_cos omega * Math_cos Omega -
                      Math_sin omega * Math_sin Omega * Math_cos i) +
              yOrb * (- Math_sin omega * Math_cos Omega -
                      Math_cos omega * Math_sin Omega * Math_cos i);
          y = xOrb * (Math_cos omega * Math_sin Omega +
                      Math_sin omega * Math_cos Omega * Math_cos i) +
              yOrb * (- Math_sin omega * Math_sin Omega +
                      Math_cos omega * Math_cos Omega * Math_cos i);
          z = xOrb * (Math_sin omega * Math_sin i) +
              yOrb * (Math_cos omega * Math_sin i)
      in \<lparr>vec_x = x, vec_y = y, vec_z = z\<rparr>)"

definition heliocentricToGeocentric ::
    "Vector3 \<Rightarrow> CelestialCoordinate \<Rightarrow> Date \<Rightarrow> CelestialCoordinate option" where
  "heliocentricToGeocentric helioCoords sunPos timestamp =
     (let x = vec_x helioCoords;
          y = vec_y helioCoords;
          z = vec_z helioCoords;
          distance = Math_sqrt (x * x + y * y + z * z);
          longitude' = Math_atan2 y x * Fin 180 / Math_PI;
          latitude' = Math_asin (z / distance) * Fin 180 / Math_PI;
          obliquity = num 23.439 * Math_PI / Fin 180;
          lambdaRad = longitude' * Math_PI / Fin 180;
          betaRad = latitude' * Math_PI / Fin 180;
          ra' = Math_atan2
                  (Math_cos obliquity * Math_sin lambdaRad - Math_sin obliquity * Math_tan betaRad)
                  (Math_cos lambdaRad) * Fin 180 / Math_PI;
          dec' = Math_asin
                  (Math_sin obliquity * Math_sin lambdaRad + Math_cos obliquity * Math_sin betaRad)
                  * Fin 180 / Math_PI
      in do {
        ra'' \<leftarrow> normalizeAngle ra';
        Some \<lparr>ra = ra'', dec = dec'\<rparr>
      })"

definition calculatePlanetPosition :: "Planet \<Rightarrow> Date \<Rightarrow> CelestialCoordinate option" where
  "calculatePlanetPosition planet timestamp =
     (if planet_type planet = TypeSun then calculateSunPosition timestamp
      else do {
        let jd = dateToJulianDay timestamp;
        meanAnomaly \<leftarrow> normalizeAngle
          (num (meanAnomalyAtEpoch (orbitalElements planet)) +
           num (dailyMotion (orbitalElements planet)) *
             (jd - num (epoch (orbitalElements planet))));
        let eccentricAnomaly =
          solveKeplerEquation meanAnomaly (num (eccentricity (orbitalElements planet)));
        trueAnomaly \<leftarrow>
          calculateTrueAnomaly eccentricAnomaly (num (eccentricity (orbitalElements planet)));
        let helioCoords = calculateHeliocentricCoordinates planet trueAnomaly;
        sunPos \<leftarrow> calculateSunPosition timestamp;
        heliocentricToGeocentric helioCoords sunPos timestamp
      })"

fun getVisiblePlanets_loop ::
    "GeolocationCoords \<Rightarrow> Date \<Rightarrow> Planet list \<Rightarrow> VisiblePlanet list \<Rightarrow> VisiblePlanet list option" where
  "getVisiblePlanets_loop location timestamp [] visiblePlanets = Some visiblePlanets"
| "getVisiblePlanets_loop location timestamp (planet # rest) visiblePlanets = do {
     position \<leftarrow> calculatePlanetPosition planet timestamp;
     horizontal \<leftarrow> celestialToHorizontal position location timestamp;
     getVisiblePlanets_loop location timestamp rest
       (if Fin (- 0.5) < altitude horizontal
        then visiblePlanets @
          [\<lparr>vp_planet = planet, vp_position = position, vp_horizontal = horizontal\<rparr>]
        else visiblePlanets)
   }"

definition getVisiblePlanets ::
    "StarCatalogService \<Rightarrow> GeolocationCoords \<Rightarrow> Date \<Rightarrow> (error + VisiblePlanet list) option" where
  "getVisiblePlanets this location timestamp =
     (if \<not> isInitialized this then Some (Inl notInitialized)
      else do {
        visiblePlanets \<leftarrow> getVisiblePlanets_loop location timestamp (Map_values (planets this)) [];
        Some (Inr visiblePlanets)
      })"


section \<open>Inputs and predicates of the verification\<close>

text \<open>The spacing of the doubles in the binade of \<open>x\<close>.\<close>

definition quantum :: "real \<Rightarrow> real" where
  "quantum x = 2 powi (expo x - 52)"

text \<open>The timestamp 2000-01-01T12:00:00Z, the epoch J2000.0.\<close>

definition J2000 :: Date where
  "J2000 = \<lparr>getUTCFullYear = 2000, getUTCMonth = 0, getUTCDate = 1,
            getUTCHours = 12, getUTCMinutes = 0, getUTCSeconds = 0\<rparr>"

text \<open>The service after \<^verbatim>\<open>initialize()\<close> on the fresh instance: the three maps hold
  the embedded data in the order of the arrays.\<close>

definition initializedCatalogue :: StarCatalogService where
  "initializedCatalogue =
     \<lparr>stars = map (\<lambda>s. (star_id s, s)) (data_stars embedded_STAR_DATA),
      constellations =
        map (\<lambda>c. (constellation_id c, c)) (data_constellations embedded_STAR_DATA),
      planets = map (\<lambda>p. (planet_id p, p)) embedded_PLANET_DATA,
      isInitialized = True,
      STAR_DATA = embedded_STAR_DATA, PLANET_DATA = embedded_PLANET_DATA\<rparr>"


text \<open>Catalogue data in which a constellation names, among its stars or in a line, an id
  that no star of the data has.\<close>

definition dangling_reference :: "StarData \<Rightarrow> bool" where
  "dangling_reference d =
     (\<exists>c \<in> set (data_constellations d).
        \<exists>i \<in> set (constellation_stars c) \<union> line_from ` set (lines c) \<union> line_to ` set (lines c).
          i \<notin> star_id ` set (data_stars d))"

text \<open>An observer on the equator at longitude 0.\<close>

definition equatorObserver :: GeolocationCoords where
  "equatorObserver = \<lparr>latitude = 0, longitude = 0, altitude_m = None\<rparr>"

text \<open>One turn of the loop of \<^verbatim>\<open>getVisiblePlanets\<close>: what it appends for a planet.\<close>

definition planetIfVisible ::
    "GeolocationCoords \<Rightarrow> Date \<Rightarrow> Planet \<Rightarrow> VisiblePlanet list option" where
  "planetIfVisible location timestamp planet = do {
     position \<leftarrow> calculatePlanetPosition planet timestamp;
     horizontal \<leftarrow> celestialToHorizontal position location timestamp;
     Some (if Fin (- 0.5) < altitude horizontal
           then [\<lparr>vp_planet = planet, vp_position = position, vp_horizontal = horizontal\<rparr>]
           else [])
   }"

lemmas embedded_stars =
  star_hip_677_def star_hip_113881_def star_hip_21421_def star_hip_25336_def
  star_hip_27989_def star_hip_24436_def star_hip_25930_def star_hip_26311_def
  star_hip_26727_def star_hip_32349_def star_hip_37279_def star_hip_69673_def
  star_hip_91262_def star_hip_102098_def star_hip_97649_def star_hip_61084_def
  star_hip_68702_def star_hip_54061_def star_hip_53910_def star_hip_58001_def
  star_hip_59774_def star_hip_62956_def star_hip_65378_def star_hip_67301_def
  star_hip_11767_def star_hip_85822_def star_hip_82080_def star_hip_77055_def
  star_hip_75097_def star_hip_79822_def star_hip_72607_def star_hip_3179_def
  star_hip_746_def star_hip_4427_def star_hip_6686_def star_hip_8886_def
  star_hip_49669_def star_hip_57632_def star_hip_50583_def star_hip_54872_def
  star_hip_47908_def star_hip_46750_def star_hip_55642_def star_hip_54879_def
  star_hip_56211_def star_hip_100453_def star_hip_95947_def star_hip_104732_def
  star_hip_94779_def



section \<open>Facts about the rounding\<close>

lemma rhe_char:
  assumes "\<bar>x - of_int m\<bar> < 1 / 2 \<or> (\<bar>x - of_int m\<bar> = 1 / 2 \<and> even m)"
  shows "rhe x = m"
proof -
  have fl: "of_int \<lfloor>x\<rfloor> \<le> x" "x < of_int \<lfloor>x\<rfloor> + 1" by linarith+
  from assms show ?thesis
  proof
    assume a: "\<bar>x - of_int m\<bar> < 1 / 2"
    show ?thesis
    proof (cases "of_int m \<le> x")
      case True
      with a have "\<lfloor>x\<rfloor> = m" by (intro floor_unique) linarith+
      with a True show ?thesis by (auto simp add: rhe_def Let_def)
    next
      case False
      with a have "\<lfloor>x\<rfloor> = m - 1" by (intro floor_unique) (simp; linarith)+
      with a False show ?thesis by (auto simp add: rhe_def Let_def)
    qed
  next
    assume a: "\<bar>x - of_int m\<bar> = 1 / 2 \<and> even m"
    show ?thesis
    proof (cases "of_int m \<le> x")
      case True
      with a have x: "x = of_int m + 1 / 2" by linarith
      then have "\<lfloor>x\<rfloor> = m" by (intro floor_unique) linarith+
      with a x show ?thesis by (simp add: rhe_def Let_def)
    next
      case False
      with a have x: "x = of_int (m - 1) + 1 / 2" by (simp; linarith?)
      then have "\<lfloor>x\<rfloor> = m - 1" by (intro floor_unique) (simp; linarith)+
      with a x show ?thesis by (auto simp add: rhe_def Let_def)
    qed
  qed
qed

lemma rhe_property:
  "\<bar>x - of_int (rhe x)\<bar> < 1 / 2 \<or> (\<bar>x - of_int (rhe x)\<bar> = 1 / 2 \<and> even (rhe x))"
proof -
  have fl: "of_int \<lfloor>x\<rfloor> \<le> x" "x < of_int \<lfloor>x\<rfloor> + 1" by linarith+
  show ?thesis
  proof (cases "x - of_int \<lfloor>x\<rfloor> < 1 / 2")
    case True
    then have "rhe x = \<lfloor>x\<rfloor>" by (simp add: rhe_def Let_def)
    moreover have "\<bar>x - of_int \<lfloor>x\<rfloor>\<bar> < 1 / 2" using fl True by linarith
    ultimately show ?thesis by simp
  next
    case False
    note nl = this
    show ?thesis
    proof (cases "1 / 2 < x - of_int \<lfloor>x\<rfloor>")
      case True
      with nl have "rhe x = \<lfloor>x\<rfloor> + 1" by (simp add: rhe_def Let_def)
      moreover have "\<bar>x - of_int (\<lfloor>x\<rfloor> + 1)\<bar> < 1 / 2" using fl True by (simp; linarith?)
      ultimately show ?thesis by simp
    next
      case False
      with nl have h: "x - of_int \<lfloor>x\<rfloor> = 1 / 2" by linarith
      show ?thesis
      proof (cases "even \<lfloor>x\<rfloor>")
        case True
        with h have "rhe x = \<lfloor>x\<rfloor>" by (simp add: rhe_def Let_def)
        with h True show ?thesis by simp
      next
        case False
        with h have r: "rhe x = \<lfloor>x\<rfloor> + 1" by (simp add: rhe_def Let_def)
        have "\<bar>x - of_int (\<lfloor>x\<rfloor> + 1)\<bar> = 1 / 2" using h by (simp; linarith?)
        with r False show ?thesis by simp
      qed
    qed
  qed
qed

lemma rhe_err: "\<bar>of_int (rhe x) - x\<bar> \<le> 1 / 2"
  using rhe_property[of x] by linarith

lemma rhe_of_int [simp]: "rhe (of_int m) = m"
  by (rule rhe_char) simp

lemma rhe_uminus: "rhe (- x) = - rhe x"
  by (rule rhe_char) (use rhe_property[of x] in \<open>auto simp add: abs_if\<close>)

lemma rhe_nonneg: "0 \<le> x \<Longrightarrow> 0 \<le> rhe x"
  using rhe_err[of x] by linarith

lemma floor_log2_eq:
  assumes "2 powi e \<le> \<bar>x\<bar>" "\<bar>x\<bar> < 2 powi (e + 1)"
  shows "\<lfloor>log 2 \<bar>x\<bar>\<rfloor> = e"
proof -
  have pos: "0 < \<bar>x\<bar>" using assms(1) zero_less_power_int[of "2::real" e] by linarith
  have a: "(2::real) powr real_of_int e = 2 powi e" by (rule powr_real_of_int') simp_all
  have b: "(2::real) powr (real_of_int e + 1) = 2 powi (e + 1)"
    using powr_real_of_int'[of "2::real" "e + 1"] by simp
  show ?thesis using pos assms by (simp add: floor_log_eq_powr_iff a b)
qed

lemma floor_log2_bounds:
  assumes "x \<noteq> 0"
  shows "2 powi \<lfloor>log 2 \<bar>x\<bar>\<rfloor> \<le> \<bar>x\<bar>" "\<bar>x\<bar> < 2 powi (\<lfloor>log 2 \<bar>x\<bar>\<rfloor> + 1)"
proof -
  have pos: "0 < \<bar>x\<bar>" using assms by simp
  have a: "(2::real) powr real_of_int e = 2 powi e" for e by (rule powr_real_of_int') simp_all
  have b: "(2::real) powr (real_of_int e + 1) = 2 powi (e + 1)" for e
    using powr_real_of_int'[of "2::real" "e + 1"] by simp
  have "\<lfloor>log 2 \<bar>x\<bar>\<rfloor> = \<lfloor>log 2 \<bar>x\<bar>\<rfloor>" ..
  then have "2 powr real_of_int \<lfloor>log 2 \<bar>x\<bar>\<rfloor> \<le> \<bar>x\<bar> \<and> \<bar>x\<bar> < 2 powr (real_of_int \<lfloor>log 2 \<bar>x\<bar>\<rfloor> + 1)"
    using pos by (subst (asm) floor_log_eq_powr_iff) simp_all
  then show "2 powi \<lfloor>log 2 \<bar>x\<bar>\<rfloor> \<le> \<bar>x\<bar>" "\<bar>x\<bar> < 2 powi (\<lfloor>log 2 \<bar>x\<bar>\<rfloor> + 1)"
    by (simp_all add: a b)
qed

lemma expoI:
  assumes "2 powi e \<le> \<bar>x\<bar>" "\<bar>x\<bar> < 2 powi (e + 1)" "- 1022 \<le> e"
  shows "expo x = e"
  using floor_log2_eq[OF assms(1,2)] assms(3) by (simp add: expo_def)

lemma expo_ge: "- 1022 \<le> expo x"
  by (simp add: expo_def)

lemma expo_upper:
  assumes "x \<noteq> 0"
  shows "\<bar>x\<bar> < 2 powi (expo x + 1)"
proof -
  have "\<bar>x\<bar> < 2 powi (\<lfloor>log 2 \<bar>x\<bar>\<rfloor> + 1)" using floor_log2_bounds[OF assms] by simp
  also have "\<dots> \<le> 2 powi (expo x + 1)"
    by (rule power_int_increasing) (simp_all add: expo_def)
  finally show ?thesis .
qed

lemma expo_lower:
  assumes "2 powi (- 1022) \<le> \<bar>x\<bar>"
  shows "2 powi expo x \<le> \<bar>x\<bar>"
proof -
  have nz: "x \<noteq> 0"
  proof
    assume "x = 0"
    with assms have "(2::real) powi (- 1022) \<le> 0" by simp
    moreover have "0 < (2::real) powi (- 1022)" by (rule zero_less_power_int) simp
    ultimately show False by linarith
  qed
  show ?thesis
  proof (cases "- 1022 \<le> \<lfloor>log 2 \<bar>x\<bar>\<rfloor>")
    case True
    then have "expo x = \<lfloor>log 2 \<bar>x\<bar>\<rfloor>" by (simp add: expo_def)
    with floor_log2_bounds(1)[OF nz] show ?thesis by simp
  next
    case False
    then have "expo x = - 1022" by (simp add: expo_def)
    with assms show ?thesis by simp
  qed
qed

lemma expo_le:
  assumes "x \<noteq> 0" "\<bar>x\<bar> < 2 powi (e + 1)" "- 1022 \<le> e"
  shows "expo x \<le> e"
proof -
  have "2 powi \<lfloor>log 2 \<bar>x\<bar>\<rfloor> < (2::real) powi (e + 1)"
    using floor_log2_bounds(1)[OF assms(1)] assms(2) by linarith
  then have "\<lfloor>log 2 \<bar>x\<bar>\<rfloor> < e + 1"
    by (smt (verit) power_int_increasing)
  with assms(3) show ?thesis by (simp add: expo_def)
qed


lemma quantum_pos: "0 < quantum x"
  by (simp add: quantum_def)

lemma round64_quantum:
  "x \<noteq> 0 \<Longrightarrow> round64 x = of_int (rhe (x / quantum x)) * quantum x"
  by (simp add: round64_def quantum_def)

lemma round64_0 [simp]: "round64 0 = 0"
  by (simp add: round64_def)

lemma round64_err_quantum: "\<bar>round64 x - x\<bar> \<le> quantum x / 2"
proof (cases "x = 0")
  case True
  then show ?thesis using quantum_pos[of 0] by simp
next
  case False
  let ?q = "quantum x"
  have q: "0 < ?q" by (rule quantum_pos)
  have "round64 x - x = (of_int (rhe (x / ?q)) - x / ?q) * ?q"
    using q False by (simp add: round64_quantum field_simps)
  then have "\<bar>round64 x - x\<bar> = \<bar>of_int (rhe (x / ?q)) - x / ?q\<bar> * ?q"
    using q by (simp add: abs_mult)
  also have "\<dots> \<le> 1 / 2 * ?q"
    using q rhe_err[of "x / ?q"] by (intro mult_right_mono) simp_all
  finally show ?thesis by simp
qed

lemma round64I:
  assumes "2 powi e \<le> \<bar>x\<bar>" "\<bar>x\<bar> < 2 powi (e + 1)" "- 1022 \<le> e"
    and "\<bar>x / 2 powi (e - 52) - of_int m\<bar> < 1 / 2 \<or>
         (\<bar>x / 2 powi (e - 52) - of_int m\<bar> = 1 / 2 \<and> even m)"
  shows "round64 x = of_int m * 2 powi (e - 52)"
proof -
  have nz: "x \<noteq> 0"
  proof
    assume "x = 0"
    with assms(1) have "(2::real) powi e \<le> 0" by simp
    moreover have "0 < (2::real) powi e" by simp
    ultimately show False by linarith
  qed
  have "expo x = e" by (rule expoI) fact+
  moreover have "rhe (x / 2 powi (e - 52)) = m" by (rule rhe_char) (rule assms(4))
  ultimately show ?thesis using nz by (simp add: round64_def)
qed

lemma round64_uminus: "round64 (- x) = - round64 x"
  by (simp add: round64_def expo_def rhe_uminus)

lemma round64_nonneg: "0 \<le> x \<Longrightarrow> 0 \<le> round64 x"
  using rhe_nonneg[of "x / 2 powi (expo x - 52)"] by (simp add: round64_def)

lemma round64_nonpos: "x \<le> 0 \<Longrightarrow> round64 x \<le> 0"
  using round64_nonneg[of "- x"] by (simp add: round64_uminus)

lemma round64_abs: "round64 \<bar>x\<bar> = \<bar>round64 x\<bar>"
  using round64_nonneg[of x] round64_nonpos[of x] round64_uminus[of x]
  by (cases "0 \<le> x") (simp_all add: abs_if)

lemma round64_exact_aux:
  assumes m: "m \<noteq> 0" "\<bar>m\<bar> < 2 ^ 53" and k: "- 1074 \<le> k"
  shows "round64 (of_int m * 2 powi k) = of_int m * 2 powi k"
proof -
  let ?x = "of_int m * 2 powi k :: real"
  have nz: "?x \<noteq> 0" using m by simp
  have "\<bar>?x\<bar> = of_int \<bar>m\<bar> * 2 powi k" by (simp add: abs_mult)
  also have "\<dots> < 2 ^ 53 * 2 powi k"
  proof (rule mult_strict_right_mono)
    have "\<bar>m\<bar> < 2 ^ 53" by fact
    then have "real_of_int \<bar>m\<bar> < real_of_int (2 ^ 53)" by (simp only: of_int_less_iff)
    then show "real_of_int \<bar>m\<bar> < 2 ^ 53" by simp
  qed simp
  also have "\<dots> = 2 powi (53 + k)" by (simp add: power_int_add)
  finally have up: "\<bar>?x\<bar> < 2 powi (53 + k)" .
  have "expo ?x \<le> 52 + k \<or> expo ?x = - 1022"
  proof (cases "- 1022 \<le> 52 + k")
    case True
    then show ?thesis using expo_le[OF nz, of "52 + k"] up by (simp add: add.commute add.left_commute)
  next
    case False
    have "\<lfloor>log 2 \<bar>?x\<bar>\<rfloor> < 53 + k"
      using floor_log2_bounds(1)[OF nz] up
      by (smt (verit) power_int_increasing)
    with False show ?thesis by (simp add: expo_def)
  qed
  with k have "expo ?x - 52 \<le> k" by auto
  define e' where "e' = expo ?x - 52"
  have "e' \<le> k" using \<open>expo ?x - 52 \<le> k\<close> by (simp add: e'_def)
  then obtain j :: nat where j: "k = e' + int j"
    by (metis add.commute diff_add_cancel nonneg_int_cases diff_ge_0_iff_ge)
  have pk: "(2::real) powi k = 2 powi e' * 2 ^ j"
    by (simp add: j power_int_add)
  have "?x / 2 powi e' = of_int m * 2 ^ j"
    by (simp add: pk)
  also have "\<dots> = of_int (m * 2 ^ j)" by simp
  finally have "rhe (?x / 2 powi e') = m * 2 ^ j" by (simp only: rhe_of_int)
  then have "round64 ?x = of_int (m * 2 ^ j) * 2 powi e'"
    using nz by (simp add: round64_def e'_def)
  also have "\<dots> = of_int m * (2 powi e' * 2 ^ j)" by simp
  finally show ?thesis by (simp only: pk)
qed

lemma round64_exact:
  assumes "\<bar>m\<bar> \<le> 2 ^ 53" "- 1074 \<le> k"
  shows "round64 (of_int m * 2 powi k) = of_int m * 2 powi k"
proof (cases "m = 0")
  case True
  then show ?thesis by simp
next
  case False
  show ?thesis
  proof (cases "\<bar>m\<bar> < 2 ^ 53")
    case True
    with False assms show ?thesis by (intro round64_exact_aux)
  next
    case False
    with assms have "\<bar>m\<bar> = 2 ^ 53" by simp
    then consider "m = 2 ^ 53" | "m = - (2 ^ 53)" by (auto simp add: abs_if split: if_splits)
    then show ?thesis
    proof cases
      case 1
      have "round64 (of_int 1 * 2 powi (53 + k)) = of_int 1 * 2 powi (53 + k)"
        using assms by (intro round64_exact_aux) simp_all
      then show ?thesis using 1 by (simp add: power_int_add)
    next
      case 2
      have "round64 (of_int (- 1) * 2 powi (53 + k)) = of_int (- 1) * 2 powi (53 + k)"
        using assms by (intro round64_exact_aux) simp_all
      then show ?thesis using 2 by (simp add: power_int_add)
    qed
  qed
qed

lemma round64_of_int:
  "\<bar>n\<bar> \<le> 2 ^ 53 \<Longrightarrow> round64 (of_int n) = of_int n"
  using round64_exact[of n 0] by simp

lemma rhe_bound:
  assumes "\<bar>y\<bar> \<le> of_int N"
  shows "\<bar>rhe y\<bar> \<le> N"
proof -
  have "rhe \<bar>y\<bar> \<le> N"
  proof (rule ccontr)
    assume "\<not> rhe \<bar>y\<bar> \<le> N"
    then have "N + 1 \<le> rhe \<bar>y\<bar>" by simp
    then have "real_of_int (N + 1) \<le> of_int (rhe \<bar>y\<bar>)" by (simp only: of_int_le_iff)
    with assms rhe_property[of "\<bar>y\<bar>"] have "\<bar>y\<bar> = of_int N" "rhe \<bar>y\<bar> = N + 1"
      by (simp; linarith)+
    then show False using rhe_of_int[of N] by simp
  qed
  moreover have "rhe \<bar>y\<bar> = \<bar>rhe y\<bar>"
    using rhe_nonneg[of y] rhe_nonneg[of "- y"] by (cases "0 \<le> y") (simp_all add: abs_if rhe_uminus)
  ultimately show ?thesis by simp
qed

lemma round64_idem: "round64 (round64 x) = round64 x"
proof (cases "x = 0")
  case True
  then show ?thesis by simp
next
  case False
  let ?q = "2 powi (expo x - 52) :: real"
  have "\<bar>x\<bar> < 2 powi (expo x + 1)" by (rule expo_upper) fact
  also have "\<dots> = 2 ^ 53 * ?q" by (simp add: power_int_add power_int_diff)
  finally have "\<bar>x / ?q\<bar> < 2 ^ 53" by (simp add: field_simps abs_mult)
  then have "\<bar>x / ?q\<bar> \<le> of_int (2 ^ 53)" by simp
  then have "\<bar>rhe (x / ?q)\<bar> \<le> 2 ^ 53" by (rule rhe_bound)
  moreover have "- 1074 \<le> expo x - 52" using expo_ge[of x] by simp
  ultimately have "round64 (of_int (rhe (x / ?q)) * ?q) = of_int (rhe (x / ?q)) * ?q"
    by (rule round64_exact)
  then show ?thesis using False by (simp add: round64_def)
qed

lemma round64_abs_err:
  assumes "\<bar>x\<bar> \<le> 2 ^ 53"
  shows "\<bar>round64 x - x\<bar> \<le> 1 / 2"
proof (cases "x = 0 \<or> \<bar>x\<bar> = 2 ^ 53")
  case True
  then consider "x = 0" | "x = of_int (2 ^ 53)" | "x = of_int (- (2 ^ 53))" by (auto simp add: abs_if split: if_splits)
  then show ?thesis
  proof cases
    case 1 then show ?thesis by simp
  next
    case 2
    have "round64 (of_int (2 ^ 53)) = of_int (2 ^ 53)" by (rule round64_of_int) simp
    with 2 show ?thesis by simp
  next
    case 3 
    have "round64 (of_int (- (2 ^ 53))) = of_int (- (2 ^ 53))" by (rule round64_of_int) simp
    with 3 show ?thesis by simp
  qed
next
  case False
  then have nz: "x \<noteq> 0" and lt: "\<bar>x\<bar> < 2 powi (52 + 1)" using assms by simp_all
  have "expo x \<le> 52" by (rule expo_le[OF nz lt]) simp
  then have "quantum x \<le> 2 powi 0" unfolding quantum_def by (intro power_int_increasing) simp_all
  with round64_err_quantum[of x] show ?thesis by simp
qed

lemma round64_rel_err:
  assumes "2 powi (- 1022) \<le> \<bar>x\<bar>"
  shows "\<bar>round64 x - x\<bar> \<le> \<bar>x\<bar> / 2 ^ 53"
proof -
  have "quantum x = 2 powi expo x / 2 ^ 52" by (simp add: quantum_def power_int_diff)
  also have "\<dots> \<le> \<bar>x\<bar> / 2 ^ 52" using expo_lower[OF assms] by (simp add: divide_right_mono)
  finally have "quantum x / 2 \<le> \<bar>x\<bar> / 2 ^ 53" by simp
  with round64_err_quantum[of x] show ?thesis by linarith
qed
section \<open>Facts about the numbers\<close>

lemma num_Fin: "\<bar>round64 x\<bar> < 2 ^ 1024 \<Longrightarrow> num x = Fin (round64 x)"
  by (simp add: num_def Let_def abs_if split: if_splits)

lemma num_small: 
  assumes "\<bar>x\<bar> \<le> 2 ^ 53"
  shows "num x = Fin (round64 x)"
proof -
  have "\<bar>round64 x\<bar> \<le> \<bar>x\<bar> + 1 / 2" using round64_abs_err[OF assms] by linarith
  also have "\<dots> \<le> 2 ^ 53 + 1 / 2" using assms by simp
  also have "\<dots> < (2::real) ^ 1024" by simp
  finally show ?thesis by (rule num_Fin)
qed

lemma num_of_int: "\<bar>n\<bar> \<le> 2 ^ 53 \<Longrightarrow> num (of_int n) = Fin (of_int n)"
proof -
  assume a: "\<bar>n\<bar> \<le> 2 ^ 53"
  then have "real_of_int \<bar>n\<bar> \<le> real_of_int (2 ^ 53)" by (simp only: of_int_le_iff)
  then have "\<bar>real_of_int n\<bar> \<le> 2 ^ 53" by simp
  then show ?thesis using a by (simp add: num_small round64_of_int)
qed

lemma num_0 [simp]: "num 0 = Fin 0"
  using num_of_int[of 0] by simp

lemma num_1 [simp]: "num 1 = Fin 1"
  using num_of_int[of 1] by simp

lemma num_numeral:
  "numeral k \<le> (9007199254740992::int) \<Longrightarrow> num (numeral k) = Fin (numeral k)"
  using num_of_int[of "numeral k"] by simp

lemma num_neg_numeral:
  "numeral k \<le> (9007199254740992::int) \<Longrightarrow> num (- numeral k) = Fin (- numeral k)"
  using num_of_int[of "- numeral k"] by simp

lemma getter_of_int: "\<bar>i\<bar> \<le> 2 ^ 53 \<Longrightarrow> getter i = Fin (of_int i)"
  by (simp add: getter_def num_of_int)

lemma Fin_minus: "Fin a - Fin b = num (a - b)"
  by (simp add: minus_jsnum_def)

lemma less_eq_Fin [simp]: "(Fin a \<le> Fin b) = (a \<le> b)"
  by (auto simp add: less_eq_jsnum_def)

lemma NaN_not_less [simp]: "\<not> NaN < a" "\<not> a < NaN" "\<not> NaN \<le> a" "\<not> a \<le> NaN"
  by (cases a; simp add: less_eq_jsnum_def)+

section \<open>Facts about angle normalization\<close>

lemma normalizeAngle_NaN: "normalizeAngle NaN = Some NaN"
  by (simp add: normalizeAngle_def normalizeAngle_up.simps normalizeAngle_down.simps)








lemma normalizeAngle_up_stuck:
  assumes "a < Fin 0" "a + Fin 360 = a"
  shows "normalizeAngle_up a = None"
proof -
  have "b \<noteq> a" if "normalizeAngle_up b = Some y" for b y
  proof (rule normalizeAngle_up.raw_induct[where P = "\<lambda>b y. b \<noteq> a", OF _ that])
    fix f b y
    assume ih: "\<And>x y. f x = Some y \<Longrightarrow> x \<noteq> a"
      and eq: "(if b < Fin 0 then f (b + Fin 360) else Some b) = Some y"
    show "b \<noteq> a"
    proof
      assume "b = a"
      with eq assms have "f a = Some y" by simp
      with ih show False by blast
    qed
  qed
  then show ?thesis by (cases "normalizeAngle_up a") auto
qed
section \<open>Angle normalization on three doubles\<close>







section \<open>Facts about the Kepler solver\<close>

lemma num_tolerance: "num 0.00000001 = Fin (3022314549036573 / 302231454903657293676544)"
proof -
  have r: "round64 0.00000001 = 3022314549036573 / 302231454903657293676544"
    using round64I[of "(- 27)" "0.00000001" "6044629098073146"] by simp
  have "num 0.00000001 = Fin (round64 0.00000001)"
    by (rule num_Fin) (simp only: r, simp)
  then show ?thesis by (simp only: r)
qed

lemma kepler30_1: "num (30 * (884279719003555 / 281474976710656)) = Fin (3316048946263331 / 35184372088832)"
proof -
  have r: "round64 (30 * (884279719003555 / 281474976710656)) = 3316048946263331 / 35184372088832"
    using round64I[of "6" "30 * (884279719003555 / 281474976710656)" "6632097892526662"] by simp
  have "num (30 * (884279719003555 / 281474976710656)) = Fin (round64 (30 * (884279719003555 / 281474976710656)))"
    by (rule num_Fin) (simp only: r, simp)
  then show ?thesis by (simp only: r)
qed

lemma kepler30_2: "num (3316048946263331 / 35184372088832 / 180) = Fin (4716158501352293 / 9007199254740992)"
proof -
  have r: "round64 (3316048946263331 / 35184372088832 / 180) = 4716158501352293 / 9007199254740992"
    using round64I[of "(- 1)" "3316048946263331 / 35184372088832 / 180" "4716158501352293"] by simp
  have "num (3316048946263331 / 35184372088832 / 180) = Fin (round64 (3316048946263331 / 35184372088832 / 180))"
    by (rule num_Fin) (simp only: r, simp)
  then show ?thesis by (simp only: r)
qed

lemma kepler30_3: "num (4716158501352293 / 9007199254740992 * 180) = Fin (3316048946263331 / 35184372088832)"
proof -
  have r: "round64 (4716158501352293 / 9007199254740992 * 180) = 3316048946263331 / 35184372088832"
    using round64I[of "6" "4716158501352293 / 9007199254740992 * 180" "6632097892526662"] by simp
  have "num (4716158501352293 / 9007199254740992 * 180) = Fin (round64 (4716158501352293 / 9007199254740992 * 180))"
    by (rule num_Fin) (simp only: r, simp)
  then show ?thesis by (simp only: r)
qed

lemma kepler30_4: "num (3316048946263331 / 35184372088832 / (884279719003555 / 281474976710656)) = Fin (8444249301319679 / 281474976710656)"
proof -
  have r: "round64 (3316048946263331 / 35184372088832 / (884279719003555 / 281474976710656)) = 8444249301319679 / 281474976710656"
    using round64I[of "4" "3316048946263331 / 35184372088832 / (884279719003555 / 281474976710656)" "8444249301319679"] by simp
  have "num (3316048946263331 / 35184372088832 / (884279719003555 / 281474976710656)) = Fin (round64 (3316048946263331 / 35184372088832 / (884279719003555 / 281474976710656)))"
    by (rule num_Fin) (simp only: r, simp)
  then show ?thesis by (simp only: r)
qed

text \<open>With eccentricity 0 the first Newton step is 0 and the loop is left at once.\<close>

lemma solveKeplerEquation_loop_zero:
  assumes "round64 m = m" "\<bar>m\<bar> < 2 ^ 1024"
    and k: "0 < k"
  shows "solveKeplerEquation_loop k (Fin 0) (Fin m) (Fin m) = Fin m"
proof -
  obtain k' where k': "k = Suc k'" using k by (cases k) simp_all
  have m: "num m = Fin m" using assms by (simp add: num_Fin)
  have a: "Fin 0 * Math_sin (Fin m) = Fin 0" "Fin 0 * Math_cos (Fin m) = Fin 0" by simp_all
  have b: "Fin m - Fin 0 = Fin m" by (simp add: Fin_minus m)
  have c: "Fin m - Fin m = Fin 0" by (simp add: Fin_minus)
  have d: "Fin 1 - Fin 0 = Fin 1" by (simp add: Fin_minus)
  have e: "divide (Fin 0) (Fin 1) = Fin 0" by simp
  have f: "Math_abs (Fin 0) < num 0.00000001" by (simp only: num_tolerance Math_abs_def) simp
  show ?thesis
    by (simp only: k' solveKeplerEquation_loop.simps a b c d e f Let_def if_True)
qed

lemma round_rel_step:
  assumes y: "\<bar>y - x\<bar> \<le> e * \<bar>x\<bar>" and e: "0 \<le> e"
    and lo: "2 powi (- 1022) \<le> \<bar>y * c\<bar>"
  shows "\<bar>round64 (y * c) - x * c\<bar> \<le> (e + (1 + e) / 2 ^ 53) * \<bar>x * c\<bar>"
proof -
  have "\<bar>y\<bar> \<le> (1 + e) * \<bar>x\<bar>" using y by (auto simp add: algebra_simps)
  then have yc: "\<bar>y * c\<bar> \<le> (1 + e) * \<bar>x * c\<bar>"
    by (simp add: abs_mult mult.assoc[symmetric] mult_right_mono)
  have "\<bar>y * c - x * c\<bar> = \<bar>y - x\<bar> * \<bar>c\<bar>" by (simp add: abs_mult[symmetric] algebra_simps)
  also have "\<dots> \<le> e * \<bar>x\<bar> * \<bar>c\<bar>" using y by (intro mult_right_mono) simp_all
  finally have d: "\<bar>y * c - x * c\<bar> \<le> e * \<bar>x * c\<bar>" by (simp add: abs_mult)
  have "\<bar>round64 (y * c) - y * c\<bar> \<le> \<bar>y * c\<bar> / 2 ^ 53" by (rule round64_rel_err) fact
  also have "\<dots> \<le> (1 + e) * \<bar>x * c\<bar> / 2 ^ 53" using yc by (simp add: divide_right_mono)
  finally have r: "\<bar>round64 (y * c) - y * c\<bar> \<le> (1 + e) / 2 ^ 53 * \<bar>x * c\<bar>" by simp
  have "\<bar>round64 (y * c) - x * c\<bar> \<le> \<bar>round64 (y * c) - y * c\<bar> + \<bar>y * c - x * c\<bar>"
    by linarith
  also have "\<dots> \<le> (1 + e) / 2 ^ 53 * \<bar>x * c\<bar> + e * \<bar>x * c\<bar>"
    by (intro add_mono r d)
  also have "\<dots> = (e + (1 + e) / 2 ^ 53) * \<bar>x * c\<bar>" by (simp add: algebra_simps)
  finally show ?thesis .
qed

lemma half_of_rel:
  fixes x y e :: real
  assumes "\<bar>y - x\<bar> \<le> e * \<bar>x\<bar>" "0 \<le> e" "e \<le> 1 / 2"
  shows "\<bar>x\<bar> / 2 \<le> \<bar>y\<bar>" "\<bar>y\<bar> \<le> 2 * \<bar>x\<bar>"
proof -
  have "e * \<bar>x\<bar> \<le> 1 / 2 * \<bar>x\<bar>" using assms by (intro mult_right_mono) simp_all
  with assms(1) show "\<bar>x\<bar> / 2 \<le> \<bar>y\<bar>" "\<bar>y\<bar> \<le> 2 * \<bar>x\<bar>" by linarith+
qed

lemma solveKeplerEquation_zero_0: "solveKeplerEquation (Fin 0) (Fin 0) = Fin 0"
proof -
  have a: "Fin 0 * Math_PI = Fin 0" by (simp add: Math_PI_def)
  have b: "Fin 0 / Fin 180 = Fin 0" by simp
  have c: "solveKeplerEquation_loop 10 (Fin 0) (Fin 0) (Fin 0) = Fin 0"
    by (rule solveKeplerEquation_loop_zero) simp_all
  have d: "Fin 0 * Fin 180 = Fin 0" by simp
  have e: "Fin 0 / Math_PI = Fin 0" by (simp add: Math_PI_def)
  show ?thesis by (simp only: solveKeplerEquation_def Let_def a b c d e)
qed

lemma solveKeplerEquation_zero_rel:
  assumes lo: "2 powi (- 1000) \<le> \<bar>M\<bar>" and hi: "\<bar>M\<bar> \<le> 2 powi 1000"
  shows "\<exists>E. solveKeplerEquation (Fin M) (Fin 0) = Fin E \<and> \<bar>E - M\<bar> \<le> \<bar>M\<bar> / 2 ^ 50"
proof -
  define P :: real where "P = 884279719003555 / 281474976710656"
  define u :: real where "u = 1 / 2 ^ 53"
  define e2 where "e2 = u + (1 + u) / 2 ^ 53"
  define e3 where "e3 = e2 + (1 + e2) / 2 ^ 53"
  define e4 where "e4 = e3 + (1 + e3) / 2 ^ 53"
  define x1 where "x1 = M * P"
  define y1 where "y1 = round64 (M * P)"
  define y2 where "y2 = round64 (y1 / 180)"
  define y3 where "y3 = round64 (y2 * 180)"
  define y4 where "y4 = round64 (y3 / P)"
  have es: "0 \<le> u" "u \<le> 1 / 2" "0 \<le> e2" "e2 \<le> 1 / 2" "0 \<le> e3" "e3 \<le> 1 / 2"
    "0 \<le> e4" "e4 \<le> 1 / 2 ^ 50"
    by (simp_all add: u_def e2_def e3_def e4_def)
  have A: "1 / 2 ^ 1000 \<le> \<bar>M\<bar>" "\<bar>M\<bar> \<le> 2 ^ 1000"
    using lo hi by (simp_all add: power_int_minus divide_simps)
  have tiny: "(2::real) powi (- 1022) = 1 / 2 ^ 1022" by (simp add: power_int_minus divide_simps)
  have x1: "\<bar>x1\<bar> = \<bar>M\<bar> * P" by (simp add: x1_def abs_mult P_def)
  have Pb: "3 < P" "P < 4" by (simp_all add: P_def)
  have x1b: "3 / 2 ^ 1000 \<le> \<bar>x1\<bar>" "\<bar>x1\<bar> \<le> 4 * 2 ^ 1000"
  proof -
    have "3 * (1 / 2 ^ 1000) \<le> P * \<bar>M\<bar>"
      using A(1) Pb by (intro mult_mono) simp_all
    then show "3 / 2 ^ 1000 \<le> \<bar>x1\<bar>" by (simp add: x1 mult.commute)
    have "P * \<bar>M\<bar> \<le> 4 * 2 ^ 1000"
      using A(2) Pb by (intro mult_mono) simp_all
    then show "\<bar>x1\<bar> \<le> 4 * 2 ^ 1000" by (simp add: x1 mult.commute)
  qed
  have s1: "\<bar>y1 - x1\<bar> \<le> u * \<bar>x1\<bar>"
  proof -
    have "2 powi (- 1022) \<le> \<bar>x1\<bar>" using x1b(1) by (simp add: tiny)
    then show ?thesis using round64_rel_err[of x1] by (simp add: y1_def x1_def u_def)
  qed
  have h1: "\<bar>x1\<bar> / 2 \<le> \<bar>y1\<bar>" "\<bar>y1\<bar> \<le> 2 * \<bar>x1\<bar>"
    using half_of_rel[OF s1 es(1,2)] .
  have s2: "\<bar>y2 - x1 / 180\<bar> \<le> e2 * \<bar>x1 / 180\<bar>"
  proof -
    have "2 powi (- 1022) \<le> \<bar>y1 * (1 / 180)\<bar>" using h1(1) x1b(1) by (simp add: tiny)
    from round_rel_step[OF s1 es(1) this] show ?thesis by (simp add: y2_def e2_def u_def)
  qed
  have h2: "\<bar>x1 / 180\<bar> / 2 \<le> \<bar>y2\<bar>" "\<bar>y2\<bar> \<le> 2 * \<bar>x1 / 180\<bar>"
    using half_of_rel[OF s2 es(3,4)] .
  have s3: "\<bar>y3 - x1\<bar> \<le> e3 * \<bar>x1\<bar>"
  proof -
    have "2 powi (- 1022) \<le> \<bar>y2 * 180\<bar>" using h2(1) x1b(1) by (simp add: tiny)
    from round_rel_step[OF s2 es(3) this] show ?thesis by (simp add: y3_def e3_def)
  qed
  have h3: "\<bar>x1\<bar> / 2 \<le> \<bar>y3\<bar>" "\<bar>y3\<bar> \<le> 2 * \<bar>x1\<bar>"
    using half_of_rel[OF s3 es(5,6)] .
  have s4: "\<bar>y4 - M\<bar> \<le> e4 * \<bar>M\<bar>"
  proof -
    have "(1::real) / 2 ^ 1022 \<le> 3 / 2 ^ 1000 / 8" by simp
    also have "\<dots> \<le> \<bar>y3\<bar> / 4" using h3(1) x1b(1) by simp
    also have "\<dots> \<le> \<bar>y3\<bar> / P"
      using Pb by (intro divide_left_mono) simp_all
    also have "\<dots> = \<bar>y3 * (1 / P)\<bar>" using Pb by (simp add: abs_mult)
    finally have "1 / 2 ^ 1022 \<le> \<bar>y3 * (1 / P)\<bar>" .
    then have "2 powi (- 1022) \<le> \<bar>y3 * (1 / P)\<bar>" by (simp only: tiny)
    from round_rel_step[OF s3 es(5) this] have "\<bar>y4 - x1 * (1 / P)\<bar> \<le> e4 * \<bar>x1 * (1 / P)\<bar>"
      by (simp add: y4_def e4_def)
    moreover have "x1 * (1 / P) = M" using Pb by (simp add: x1_def)
    ultimately show ?thesis by (simp only:)
  qed
  have f1: "\<bar>y1\<bar> < 2 ^ 1024" using h1(2) x1b(2) by simp
  have f2: "\<bar>y2\<bar> < 2 ^ 1024" using h2(2) x1b(2) by simp
  have f3: "\<bar>y3\<bar> < 2 ^ 1024" using h3(2) x1b(2) by simp
  have "\<bar>y4\<bar> \<le> \<bar>y4 - M\<bar> + \<bar>M\<bar>" by linarith
  also have "\<dots> \<le> e4 * \<bar>M\<bar> + \<bar>M\<bar>" using s4 by simp
  also have "\<dots> \<le> 1 / 2 ^ 50 * \<bar>M\<bar> + \<bar>M\<bar>"
    using es(8) by (intro add_mono mult_right_mono) simp_all
  also have "\<dots> \<le> 2 * 2 ^ 1000" using A(2) by simp
  finally have f4: "\<bar>y4\<bar> < 2 ^ 1024" by simp
  have a: "Fin M * Math_PI = Fin y1"
    using f1 by (simp add: Math_PI_def num_Fin y1_def P_def)
  have b: "Fin y1 / Fin 180 = Fin y2"
    using f2 by (simp add: num_Fin y2_def)
  have c: "solveKeplerEquation_loop 10 (Fin 0) (Fin y2) (Fin y2) = Fin y2"
  proof (rule solveKeplerEquation_loop_zero)
    show "round64 y2 = y2" by (simp add: y2_def round64_idem)
    show "\<bar>y2\<bar> < 2 ^ 1024" by (rule f2)
  qed simp
  have d: "Fin y2 * Fin 180 = Fin y3"
    using f3 by (simp add: num_Fin y3_def)
  have e: "Fin y3 / Math_PI = Fin y4"
    using f4 by (simp add: Math_PI_def num_Fin y4_def P_def)
  have "solveKeplerEquation (Fin M) (Fin 0) = Fin y4"
    by (simp only: solveKeplerEquation_def Let_def a b c d e)
  moreover have "\<bar>y4 - M\<bar> \<le> \<bar>M\<bar> / 2 ^ 50"
  proof -
    have "e4 * \<bar>M\<bar> \<le> 1 / 2 ^ 50 * \<bar>M\<bar>" using es(8) by (intro mult_right_mono) simp_all
    with s4 show ?thesis by simp
  qed
  ultimately show ?thesis by blast
qed

lemma solveKeplerEquation_30:
  "solveKeplerEquation (Fin 30) (Fin 0) = Fin (8444249301319679 / 281474976710656)"
proof -
  have a: "Fin 30 * Math_PI = Fin (3316048946263331 / 35184372088832)"
    by (simp only: Math_PI_def times_jsnum.simps kepler30_1)
  have b: "Fin (3316048946263331 / 35184372088832) / Fin 180 = Fin (4716158501352293 / 9007199254740992)"
    using kepler30_2 by simp
  have c: "solveKeplerEquation_loop 10 (Fin 0) (Fin (4716158501352293 / 9007199254740992))
      (Fin (4716158501352293 / 9007199254740992)) = Fin (4716158501352293 / 9007199254740992)"
  proof (rule solveKeplerEquation_loop_zero)
    show "round64 (4716158501352293 / 9007199254740992) = 4716158501352293 / 9007199254740992"
      using round64_exact[of 4716158501352293 "- 53"] by simp
  qed simp_all
  have d: "Fin (4716158501352293 / 9007199254740992) * Fin 180 = Fin (3316048946263331 / 35184372088832)"
    by (simp only: times_jsnum.simps kepler30_3)
  have e: "Fin (3316048946263331 / 35184372088832) / Math_PI = Fin (8444249301319679 / 281474976710656)"
    using kepler30_4 by (simp add: Math_PI_def)
  show ?thesis by (simp only: solveKeplerEquation_def Let_def a b c d e)
qed
section \<open>Facts about the time functions\<close>

lemma jd_a: "num (13 / 12) = Fin (4878899596318037 / 4503599627370496)"
proof -
  have r: "round64 (13 / 12) = 4878899596318037 / 4503599627370496"
    using round64I[of "0" "13 / 12" "4878899596318037"] by simp
  have "num (13 / 12) = Fin (round64 (13 / 12))"
    by (rule num_Fin) (simp only: r, simp)
  then show ?thesis by (simp only: r)
qed

lemma jd_m: "num (1532 / 5) = Fin (2695122902004531 / 8796093022208)"
proof -
  have r: "round64 (1532 / 5) = 2695122902004531 / 8796093022208"
    using round64I[of "8" "1532 / 5" "5390245804009062"] by simp
  have "num (1532 / 5) = Fin (round64 (1532 / 5))"
    by (rule num_Fin) (simp only: r, simp)
  then show ?thesis by (simp only: r)
qed

lemma jd_y4: "num (6799 / 4) = Fin (6799 / 4)"
proof -
  have r: "round64 (6799 / 4) = 6799 / 4"
    using round64I[of "10" "6799 / 4" "7475579557249024"] by simp
  have "num (6799 / 4) = Fin (round64 (6799 / 4))"
    by (rule num_Fin) (simp only: r, simp)
  then show ?thesis by (simp only: r)
qed

lemma jd_y100: "num (6799 / 100) = Fin (4784370916639375 / 70368744177664)"
proof -
  have r: "round64 (6799 / 100) = 4784370916639375 / 70368744177664"
    using round64I[of "6" "6799 / 100" "4784370916639375"] by simp
  have "num (6799 / 100) = Fin (round64 (6799 / 100))"
    by (rule num_Fin) (simp only: r, simp)
  then show ?thesis by (simp only: r)
qed

lemma jd_y400: "num (6799 / 400) = Fin (4784370916639375 / 281474976710656)"
proof -
  have r: "round64 (6799 / 400) = 4784370916639375 / 281474976710656"
    using round64I[of "4" "6799 / 400" "4784370916639375"] by simp
  have "num (6799 / 400) = Fin (round64 (6799 / 400))"
    by (rule num_Fin) (simp only: r, simp)
  then show ?thesis by (simp only: r)
qed

lemma julianDay_J2000: "dateToJulianDay J2000 = Fin 2451545"
  by (simp add: dateToJulianDay_def J2000_def getter_def num_numeral Fin_minus jd_a jd_m jd_y4 jd_y100 jd_y400)
section \<open>Facts about the catalogue\<close>



lemma find_append_last:
  "find P (xs @ [x]) = (case find P xs of Some y \<Rightarrow> Some y | None \<Rightarrow> if P x then Some x else None)"
  by (induction xs) simp_all

lemma map_of_foldl_update:
  "map_of (foldl (\<lambda>m x. AList.update (f x) x m) m xs) k =
     (case find (\<lambda>x. f x = k) (rev xs) of Some x \<Rightarrow> Some x | None \<Rightarrow> map_of m k)"
proof (induction xs arbitrary: m)
  case Nil
  show ?case by simp
next
  case (Cons x xs)
  show ?case
    by (simp add: Cons.IH update_conv' find_append_last split: option.splits)
qed

lemma map_of_foldl_Map_set:
  "map_of (foldl (\<lambda>m x. Map_set (f x) x m) m xs) k =
     (case find (\<lambda>x. f x = k) (rev xs) of Some x \<Rightarrow> Some x | None \<Rightarrow> map_of m k)"
  using map_of_foldl_update[of f m xs k] by (simp add: Map_set_def[abs_def])




lemma getVisiblePlanets_loop_those:
  "getVisiblePlanets_loop location timestamp xs acc =
     map_option (\<lambda>ys. acc @ concat ys) (those (map (planetIfVisible location timestamp) xs))"
proof (induction xs arbitrary: acc)
  case Nil
  show ?case by simp
next
  case (Cons planet xs)
  show ?case
  proof (cases "calculatePlanetPosition planet timestamp")
    case None
    then show ?thesis by (simp add: planetIfVisible_def)
  next
    case (Some pos)
    show ?thesis
    proof (cases "celestialToHorizontal pos location timestamp")
      case None
      with Some show ?thesis by (simp add: planetIfVisible_def)
    next
      case (Some h)
      note pos = \<open>calculatePlanetPosition planet timestamp = Some pos\<close>
      show ?thesis
      proof (cases "Fin (- 0.5) < altitude h")
        case True
        have pv: "planetIfVisible location timestamp planet =
            Some [\<lparr>vp_planet = planet, vp_position = pos, vp_horizontal = h\<rparr>]"
          using True by (simp add: planetIfVisible_def pos Some)
        have "getVisiblePlanets_loop location timestamp (planet # xs) acc =
            getVisiblePlanets_loop location timestamp xs
              (acc @ [\<lparr>vp_planet = planet, vp_position = pos, vp_horizontal = h\<rparr>])"
          using True by (simp add: pos Some)
        then show ?thesis
          by (cases "those (map (planetIfVisible location timestamp) xs)")
            (simp_all add: pv Cons.IH)
      next
        case False
        have pv: "planetIfVisible location timestamp planet = Some []"
          using False by (simp add: planetIfVisible_def pos Some)
        have "getVisiblePlanets_loop location timestamp (planet # xs) acc =
            getVisiblePlanets_loop location timestamp xs acc"
          using False by (simp add: pos Some)
        then show ?thesis
          by (cases "those (map (planetIfVisible location timestamp) xs)")
            (simp_all add: pv Cons.IH)
      qed
    qed
  qed
qed



lemma set_sort_by_magnitude: "set (sort_by_magnitude xs) = set xs"
  by (simp add: sort_by_magnitude_def)


lemma foldl_brightest:
  "foldl (\<lambda>brightest star. if magnitude star < magnitude brightest then star else brightest) b xs
     \<in> insert b (set xs) \<and>
   (\<forall>s \<in> insert b (set xs).
      magnitude (foldl (\<lambda>brightest star.
          if magnitude star < magnitude brightest then star else brightest) b xs)
      \<le> magnitude s)"
proof (induction xs arbitrary: b)
  case Nil
  show ?case by simp
next
  case (Cons x xs)
  show ?case
    using Cons.IH[of "if magnitude x < magnitude b then x else b"]
    by (auto split: if_splits)
qed

section \<open>Facts about the embedded catalogue\<close>





lemma Map_values_initializedCatalogue:
  "Map_values (stars initializedCatalogue) = data_stars embedded_STAR_DATA"
  by (simp add: initializedCatalogue_def Map_values_def comp_def)

lemma embedded_no_dangling_reference: "\<not> dangling_reference embedded_STAR_DATA"
  by code_simp



lemma only_Sirius_is_that_bright:
  "\<forall>s \<in> set (data_stars embedded_STAR_DATA). magnitude s \<le> - 1.46 \<longrightarrow> s = star_hip_32349"
  by (simp add: embedded_STAR_DATA_def embedded_stars)

lemma Sirius_embedded: "star_hip_32349 \<in> set (data_stars embedded_STAR_DATA)"
  by (simp add: embedded_STAR_DATA_def)

section \<open>Time system\<close>

text \<open>
  C6. \<^verbatim>\<open>dateToJulianDay\<close> of the timestamp 2000-01-01T12:00:00Z (year 2000, month
  index 0, day 1, 12 hours, 0 minutes, 0 seconds) is exactly 2451545.0. The five quotients
  under \<^verbatim>\<open>Math.floor\<close> are rounded before the floor is taken; every other intermediate
  value is an integer.
\<close>

theorem dateToJulianDay_J2000:
  "dateToJulianDay
     \<lparr>getUTCFullYear = 2000, getUTCMonth = 0, getUTCDate = 1,
      getUTCHours = 12, getUTCMinutes = 0, getUTCSeconds = 0\<rparr> = Fin 2451545"
  using julianDay_J2000 by (simp add: J2000_def)

section \<open>Catalogue store\<close>

text \<open>
  C10. \<^verbatim>\<open>getStatistics\<close> returns the sizes of the three collections, and its
  \<^verbatim>\<open>brightestStar\<close> is \<^verbatim>\<open>null\<close> when there is no star and otherwise a star of the
  catalogue of least magnitude.
\<close>

theorem getStatistics_sizes_brightest:
  "\<exists>st. getStatistics this = Inr st \<and>
     totalStars st = length (stars this) \<and>
     totalConstellations st = length (constellations this) \<and>
     totalPlanets st = length (planets this) \<and>
     (case brightestStar st of
        None \<Rightarrow> stars this = []
      | Some b \<Rightarrow> b \<in> set (Map_values (stars this)) \<and>
          (\<forall>s \<in> set (Map_values (stars this)). magnitude b \<le> magnitude s))"
proof (cases "Map_values (stars this)")
  case Nil
  then show ?thesis by (simp add: getStatistics_def Map_size_def Map_values_def)
next
  case (Cons first rest)
  have "insert first (set (first # rest)) = set (Map_values (stars this))"
    using Cons by auto
  with foldl_brightest[of first "first # rest"] show ?thesis
    using Cons by (simp add: getStatistics_def Map_size_def Let_def)
qed

theorem getStatistics_embedded_catalogue:
  "\<exists>st. getStatistics initializedCatalogue = Inr st \<and>
     totalStars st = 49 \<and> totalConstellations st = 9 \<and> totalPlanets st = 9 \<and>
     brightestStar st = Some star_hip_32349"
proof -
  obtain st where st: "getStatistics initializedCatalogue = Inr st"
    and sizes: "totalStars st = length (stars initializedCatalogue)"
      "totalConstellations st = length (constellations initializedCatalogue)"
      "totalPlanets st = length (planets initializedCatalogue)"
    and br: "case brightestStar st of
        None \<Rightarrow> stars initializedCatalogue = []
      | Some b \<Rightarrow> b \<in> set (Map_values (stars initializedCatalogue)) \<and>
          (\<forall>s \<in> set (Map_values (stars initializedCatalogue)). magnitude b \<le> magnitude s)"
    using getStatistics_sizes_brightest[of initializedCatalogue] by blast
  have n: "totalStars st = 49" "totalConstellations st = 9" "totalPlanets st = 9"
    using sizes
    by (simp_all add: initializedCatalogue_def embedded_STAR_DATA_def embedded_PLANET_DATA_def)
  have "brightestStar st = Some star_hip_32349"
  proof (cases "brightestStar st")
    case None
    with br show ?thesis by (simp add: initializedCatalogue_def embedded_STAR_DATA_def)
  next
    case (Some b)
    with br have b: "b \<in> set (data_stars embedded_STAR_DATA)"
      and least: "\<forall>s \<in> set (data_stars embedded_STAR_DATA). magnitude b \<le> magnitude s"
      by (simp_all add: Map_values_initializedCatalogue)
    from least Sirius_embedded have "magnitude b \<le> magnitude star_hip_32349" by blast
    then have "magnitude b \<le> - 1.46" by (simp add: star_hip_32349_def)
    with b only_Sirius_is_that_bright have "b = star_hip_32349" by blast
    with Some show ?thesis by simp
  qed
  with st n show ?thesis by simp
qed

text \<open>
  C3, as stated: every query, the six lookups included, fails with the not-initialized
  error before initialization. On the fresh instance the six lookups return instead.
\<close>

theorem lookups_return_before_initialize:
  "\<not> isInitialized getInstance \<and>
   getStar getInstance ''hip_32349'' = Inr None \<and>
   getConstellations getInstance = Inr [] \<and>
   getConstellation getInstance ''orion'' = Inr None \<and>
   getPlanets getInstance = Inr [] \<and>
   getPlanet getInstance ''mars'' = Inr None \<and>
   getStatistics getInstance =
     Inr \<lparr>totalStars = 0, totalConstellations = 0, totalPlanets = 0, brightestStar = None\<rparr>"
  by (simp add: getInstance_def getStar_def getConstellations_def getConstellation_def
      getPlanets_def getPlanet_def getStatistics_def Map_get_def Map_values_def Map_size_def)

text \<open>
  C3, amended: before initialization \<^verbatim>\<open>getVisibleStars\<close>, \<^verbatim>\<open>getStarsInView\<close>,
  \<^verbatim>\<open>searchStars\<close> and \<^verbatim>\<open>getVisiblePlanets\<close> throw the not-initialized error;
  \<^verbatim>\<open>getStar\<close>, \<^verbatim>\<open>getConstellations\<close>, \<^verbatim>\<open>getConstellation\<close>, \<^verbatim>\<open>getPlanets\<close>,
  \<^verbatim>\<open>getPlanet\<close> and \<^verbatim>\<open>getStatistics\<close> have no such check and return what the
  collections hold at that moment.
\<close>

theorem queries_before_initialize:
  "\<not> isInitialized this \<Longrightarrow>
     getVisibleStars this location maxMagnitude timestamp = Some (Inl notInitialized) \<and>
     getStarsInView this centerCoordinate fieldOfViewDegrees maxMagnitude = Inl notInitialized \<and>
     searchStars this query = Inl notInitialized \<and>
     getVisiblePlanets this location timestamp = Some (Inl notInitialized) \<and>
     getStar this i = Inr (Map_get (stars this) i) \<and>
     getConstellations this = Inr (Map_values (constellations this)) \<and>
     getConstellation this i = Inr (Map_get (constellations this) i) \<and>
     getPlanets this = Inr (Map_values (planets this)) \<and>
     getPlanet this i = Inr (Map_get (planets this) i) \<and>
     (\<exists>st. getStatistics this = Inr st \<and>
        totalStars st = Map_size (stars this) \<and>
        totalConstellations st = Map_size (constellations this) \<and>
        totalPlanets st = Map_size (planets this))"
  by (simp add: getVisibleStars_def getStarsInView_def searchStars_def getVisiblePlanets_def
      getStar_def getConstellations_def getConstellation_def getPlanets_def getPlanet_def
      getStatistics_def Let_def)

theorem queries_before_initialize_fresh_instance:
  "\<not> isInitialized getInstance \<and>
   getVisibleStars getInstance equatorObserver 4.0 J2000 = Some (Inl notInitialized) \<and>
   getStarsInView getInstance \<lparr>ra = 0, dec = 0\<rparr> 60 4.0 = Inl notInitialized \<and>
   searchStars getInstance ''vega'' = Inl notInitialized \<and>
   getVisiblePlanets getInstance equatorObserver J2000 = Some (Inl notInitialized) \<and>
   getStar getInstance ''hip_91262'' = Inr None \<and>
   getPlanets getInstance = Inr []"
proof -
  have fresh: "\<not> isInitialized getInstance" by (simp add: getInstance_def)
  show ?thesis
    using fresh
      queries_before_initialize[OF fresh, of equatorObserver "4.0" J2000 "\<lparr>ra = 0, dec = 0\<rparr>"
        60 "''vega''" "''hip_91262''"]
    by (simp add: getInstance_def Map_get_def Map_values_def)
qed




section \<open>Angle normalization and the Kepler solver\<close>




text \<open>
  C7, as stated: \<^verbatim>\<open>solveKeplerEquation(M, 0)\<close> returns \<open>M\<close>. The code on \<open>M = 30\<close>:
  the mean anomaly is converted to radians, the loop leaves it as it is, and it is
  converted back; the four roundings of \<^verbatim>\<open>30 * Math.PI / 180 * 180 / Math.PI\<close> give
  \<^verbatim>\<open>29.999999999999996\<close>, the double 8444249301319679 / 2 ^ 48.
\<close>

theorem solveKeplerEquation_30_is_not_30:
  "solveKeplerEquation (Fin 30) (Fin 0) = Fin (8444249301319679 / 281474976710656) \<and>
   solveKeplerEquation (Fin 30) (Fin 0) \<noteq> Fin 30"
  by (simp add: solveKeplerEquation_30)

text \<open>
  C7, amended: for eccentricity 0 and a mean anomaly \<open>M\<close> that is 0 or of a magnitude
  between \<open>2 powi (- 1000)\<close> and \<open>2 powi 1000\<close>, \<^verbatim>\<open>solveKeplerEquation(M, 0)\<close> returns
  a finite number \<open>E\<close> within the relative error \<open>2 powi (- 50)\<close> of \<open>M\<close>: the two
  conversions between degrees and radians are four rounded operations, and the Newton
  iteration adds nothing.
\<close>

theorem solveKeplerEquation_zero_eccentricity:
  "M = 0 \<or> (2 powi (- 1000) \<le> \<bar>M\<bar> \<and> \<bar>M\<bar> \<le> 2 powi 1000) \<Longrightarrow>
     \<exists>E. solveKeplerEquation (Fin M) (Fin 0) = Fin E \<and> \<bar>E - M\<bar> \<le> \<bar>M\<bar> / 2 ^ 50"
  using solveKeplerEquation_zero_0 solveKeplerEquation_zero_rel[of M] by auto

theorem solveKeplerEquation_zero_eccentricity_30:
  "\<exists>E. solveKeplerEquation (Fin 30) (Fin 0) = Fin E \<and> \<bar>E - 30\<bar> \<le> 30 / 2 ^ 50"
  using solveKeplerEquation_zero_eccentricity[of 30] by simp

end
